theory Spec2Isabelle
  imports Complex_Main "HOL-Library.List_Lexorder" "HOL-Library.Char_ord" "HOL-Library.Multiset"
    "HOL-Library.Log_Nat"
begin

section \<open>The platform: JavaScript values, exceptions and the outside world\<close>

text \<open>
  The services are TypeScript classes over a better-sqlite3 database. What they take
  from the platform is kept as parameters, collected in the record \<open>env\<close>:
  \<^item> \<open>nanoid\<close>: the identifier returned by the k-th call of \<^verbatim>\<open>nanoid()\<close>;
  \<^item> \<open>datetime_now\<close>: the text returned by the k-th evaluation of SQLite's
    \<^verbatim>\<open>datetime('now')\<close>;
  \<^item> \<open>JSON_parse\<close>: \<^verbatim>\<open>JSON.parse\<close>, \<open>None\<close> when it throws a SyntaxError;
  \<^item> \<open>JSON_stringify\<close>: \<^verbatim>\<open>JSON.stringify\<close>;
  \<^item> \<open>hmac_sha256_hex\<close>: \<^verbatim>\<open>crypto.createHmac('sha256', secret).update(payload).digest('hex')\<close>,
    as a function of the secret and the payload;
  \<^item> \<open>fetch\<close>: the outcome of the k-th HTTP request this process makes.
  Values that JavaScript does not type at run time (what \<^verbatim>\<open>JSON.parse\<close> returns) are
  elements of \<open>json\<close>; a finite double is a rational number.
\<close>

datatype json =
    JNull
  | JBool bool
  | JNumber rat
  | JString string
  | JArray "json list"
  | JObject "(string \<times> json) list"

datatype error = SyntaxError | TypeError | SqliteError

datatype fetch_result = Response int | NetworkFailure

record http_request =
  rq_url :: string
  rq_signature :: string
  rq_body :: string

record env =
  nanoid :: "nat \<Rightarrow> string"
  datetime_now :: "nat \<Rightarrow> string"
  JSON_parse :: "string \<Rightarrow> json option"
  JSON_stringify :: "json \<Rightarrow> string"
  hmac_sha256_hex :: "string \<Rightarrow> string \<Rightarrow> string"
  fetch :: "nat \<Rightarrow> http_request \<Rightarrow> fetch_result"

subsection \<open>Numbers\<close>

text \<open>
  A JavaScript number is a double: a finite one is the rational number it stands for,
  and there are \<open>NaN\<close> and the two infinities (the sign of zero plays no part in
  what follows). An arithmetic operation rounds the exact result to the nearest double,
  a tie to the even significand, and to an infinity from \<open>2^1024\<close> on.
  \<open>round_to_double\<close> is that rounding: with \<open>e\<close> the binary exponent of the
  magnitude (\<open>2^e \<le> a < 2^(e+1)\<close>, and -1022 for the subnormal range below), the
  doubles around \<open>a\<close> are the multiples of \<open>2^(e - 52)\<close>. Every whole number of
  magnitude at most \<open>2^53\<close> is a double; \<open>to_double\<close> says so first, and rounds
  everything else.
\<close>

datatype js_number = Finite rat | NaN | PosInfinity | NegInfinity












section \<open>The database (db/schema.ts)\<close>

text \<open>
  One record per table row, with the columns of the schema (the fields carry a prefix
  for their table, since every table has an \<open>id\<close>). INTEGER columns are \<open>int\<close>, TEXT
  columns are \<open>string\<close>; a table is the list of its rows in insertion order.
\<close>

datatype NotificationChannel = in_app | email | webhook

datatype NotificationType =
  task_assigned | task_status_changed | comment_added | project_invited | task_due_soon

fun channel_text :: "NotificationChannel \<Rightarrow> string" where
  "channel_text in_app = ''in_app''"
| "channel_text email = ''email''"
| "channel_text webhook = ''webhook''"

fun type_text :: "NotificationType \<Rightarrow> string" where
  "type_text task_assigned = ''task_assigned''"
| "type_text task_status_changed = ''task_status_changed''"
| "type_text comment_added = ''comment_added''"
| "type_text project_invited = ''project_invited''"
| "type_text task_due_soon = ''task_due_soon''"

record NotificationRow =
  n_id :: string
  n_user_id :: string
  n_type :: string
  n_channel :: string
  n_title :: string
  n_body :: string
  n_metadata :: string
  n_read :: int
  n_created_at :: string

record PreferencesRow =
  p_user_id :: string
  p_task_assigned :: string
  p_task_status_changed :: string
  p_comment_added :: string
  p_project_invited :: string
  p_task_due_soon :: string

record WebhookRow =
  w_id :: string
  w_user_id :: string
  w_url :: string
  w_secret :: string
  w_events :: string
  w_active :: int
  w_created_at :: string

datatype delivery_status = pending | delivered | failed

record DeliveryRow =
  d_id :: string
  d_webhook_id :: string
  d_event_type :: string
  d_payload :: string
  d_status :: delivery_status
  d_response_code :: "int option"
  d_attempts :: int
  d_last_attempt_at :: "string option"
  d_created_at :: string

record SentEmailRow =
  e_id :: string
  e_to_email :: string
  e_subject :: string
  e_body :: string
  e_created_at :: string

text \<open>
  The state the services act on: the five tables, how many identifiers and clock
  readings have been drawn, and what the process has done to the outside: the HTTP
  requests sent, the waits between retries (milliseconds) and the console lines.
\<close>

record world =
  notifications :: "NotificationRow list"
  notification_preferences :: "PreferencesRow list"
  webhooks :: "WebhookRow list"
  webhook_deliveries :: "DeliveryRow list"
  sent_emails :: "SentEmailRow list"
  ids_drawn :: nat
  clock_reads :: nat
  http_log :: "http_request list"
  slept :: "nat list"
  console :: "string list"

definition draw_id :: "env \<Rightarrow> world \<Rightarrow> string \<times> world" where
  "draw_id E w = (nanoid E (ids_drawn w), w\<lparr>ids_drawn := Suc (ids_drawn w)\<rparr>)"

definition read_clock :: "env \<Rightarrow> world \<Rightarrow> string \<times> world" where
  "read_clock E w = (datetime_now E (clock_reads w), w\<lparr>clock_reads := Suc (clock_reads w)\<rparr>)"

text \<open>\<^verbatim>\<open>xs.map(f)\<close> where \<open>f\<close> may throw: the first exception ends the map.\<close>

fun map_result :: "('a \<Rightarrow> error + 'b) \<Rightarrow> 'a list \<Rightarrow> error + 'b list" where
  "map_result f [] = Inr []"
| "map_result f (x # xs) =
     (case f x of
        Inl e \<Rightarrow> Inl e
      | Inr y \<Rightarrow> (case map_result f xs of Inl e \<Rightarrow> Inl e | Inr ys \<Rightarrow> Inr (y # ys)))"

section \<open>NotificationService (services/notification.service.ts)\<close>

record Notification =
  notif_id :: string
  notif_userId :: string
  notif_type :: string
  notif_channel :: string
  notif_title :: string
  notif_body :: string
  notif_metadata :: json
  notif_read :: bool
  notif_createdAt :: string

record SendNotificationRequest =
  req_userId :: string
  req_type :: NotificationType
  req_title :: string
  req_body :: string
  req_metadata :: "json option"
  req_channels :: "NotificationChannel list option"


record 'a PaginatedResponse =
  items :: "'a list"
  total :: js_number
  page :: js_number
  pageSize :: js_number
  hasMore :: bool

definition rowToNotification :: "env \<Rightarrow> NotificationRow \<Rightarrow> error + Notification" where
  "rowToNotification E row =
     (case JSON_parse E (n_metadata row) of
        None \<Rightarrow> Inl SyntaxError
      | Some m \<Rightarrow>
          Inr \<lparr> notif_id = n_id row, notif_userId = n_user_id row, notif_type = n_type row,
                notif_channel = n_channel row, notif_title = n_title row,
                notif_body = n_body row, notif_metadata = m,
                notif_read = (n_read row = 1), notif_createdAt = n_created_at row \<rparr>)"

text \<open>
  \<^verbatim>\<open>INSERT INTO notifications\<close>: \<open>id\<close> is the primary key, so a row whose id is
  already in the table is refused (better-sqlite3 throws).
\<close>

definition insert_notification :: "NotificationRow \<Rightarrow> world \<Rightarrow> error + world" where
  "insert_notification r w =
     (if n_id r \<in> set (map n_id (notifications w)) then Inl SqliteError
      else Inr (w\<lparr>notifications := notifications w @ [r]\<rparr>))"

text \<open>
  The body of the \<^verbatim>\<open>for (const channel of channels)\<close> loop of \<open>send\<close>, and the loop.
  The rows already inserted stay in the table when a later iteration throws.
\<close>

definition send_channel ::
  "env \<Rightarrow> SendNotificationRequest \<Rightarrow> NotificationChannel \<Rightarrow> world \<Rightarrow> (error + Notification) \<times> world"
where
  "send_channel E req channel w =
     (let (i, w1) = draw_id E w;
          metadata = JSON_stringify E (case req_metadata req of None \<Rightarrow> JObject [] | Some m \<Rightarrow> m);
          (now, w2) = read_clock E w1;
          row = \<lparr> n_id = i, n_user_id = req_userId req, n_type = type_text (req_type req),
                  n_channel = channel_text channel, n_title = req_title req,
                  n_body = req_body req, n_metadata = metadata, n_read = 0,
                  n_created_at = now \<rparr>
      in case insert_notification row w2 of
           Inl e \<Rightarrow> (Inl e, w2)
         | Inr w3 \<Rightarrow>
             (case find (\<lambda>r. n_id r = i) (notifications w3) of
                None \<Rightarrow> (Inl TypeError, w3)
              | Some r \<Rightarrow> (rowToNotification E r, w3)))"

fun send_loop ::
  "env \<Rightarrow> SendNotificationRequest \<Rightarrow> NotificationChannel list \<Rightarrow> Notification list \<Rightarrow> world
     \<Rightarrow> (error + Notification list) \<times> world"
where
  "send_loop E req [] acc w = (Inr acc, w)"
| "send_loop E req (channel # rest) acc w =
     (case send_channel E req channel w of
        (Inl e, w') \<Rightarrow> (Inl e, w')
      | (Inr n, w') \<Rightarrow> send_loop E req rest (acc @ [n]) w')"

definition NotificationService_send ::
  "env \<Rightarrow> SendNotificationRequest \<Rightarrow> world \<Rightarrow> (error + Notification list) \<times> world"
where
  "NotificationService_send E req w =
     (let channels = (case req_channels req of None \<Rightarrow> [in_app] | Some cs \<Rightarrow> cs)
      in send_loop E req channels [] w)"




definition NotificationService_markAsRead ::
  "env \<Rightarrow> string \<Rightarrow> string \<Rightarrow> world \<Rightarrow> (error + Notification option) \<times> world"
where
  "NotificationService_markAsRead E notificationId userId w =
     (case find (\<lambda>r. n_id r = notificationId \<and> n_user_id r = userId) (notifications w) of
        None \<Rightarrow> (Inr None, w)
      | Some row \<Rightarrow>
          (let w' = w\<lparr>notifications :=
                      map (\<lambda>r. if n_id r = notificationId then r\<lparr>n_read := 1\<rparr> else r)
                        (notifications w)\<rparr>
           in case rowToNotification E (row\<lparr>n_read := 1\<rparr>) of
                Inl e \<Rightarrow> (Inl e, w')
              | Inr n \<Rightarrow> (Inr (Some n), w')))"

definition NotificationService_markAllAsRead :: "string \<Rightarrow> world \<Rightarrow> int \<times> world" where
  "NotificationService_markAllAsRead userId w =
     (int (length (filter (\<lambda>r. n_user_id r = userId \<and> n_read r = 0) (notifications w))),
      w\<lparr>notifications :=
          map (\<lambda>r. if n_user_id r = userId \<and> n_read r = 0 then r\<lparr>n_read := 1\<rparr> else r)
            (notifications w)\<rparr>)"

definition NotificationService_getUnreadCount :: "string \<Rightarrow> world \<Rightarrow> int" where
  "NotificationService_getUnreadCount userId w =
     int (length (filter (\<lambda>r. n_user_id r = userId \<and> n_read r = 0) (notifications w)))"

section \<open>PreferencesService (services/preferences.service.ts)\<close>

record NotificationPreferences =
  pref_userId :: string
  taskAssigned :: json
  taskStatusChanged :: json
  commentAdded :: json
  projectInvited :: json
  taskDueSoon :: json

definition channels_json :: "NotificationChannel list \<Rightarrow> json" where
  "channels_json cs = JArray (map (\<lambda>c. JString (channel_text c)) cs)"

text \<open>
  \<^verbatim>\<open>{ userId, ...DEFAULT_PREFERENCES }\<close>: the constant has no \<open>userId\<close> of its own, so
  it is given as the object the spread builds.
\<close>

definition DEFAULT_PREFERENCES :: "string \<Rightarrow> NotificationPreferences" where
  "DEFAULT_PREFERENCES userId =
     \<lparr> pref_userId = userId,
       taskAssigned = channels_json [in_app],
       taskStatusChanged = channels_json [in_app],
       commentAdded = channels_json [in_app],
       projectInvited = channels_json [in_app, email],
       taskDueSoon = channels_json [in_app, email] \<rparr>"

text \<open>
  The fields of the object literal are evaluated in order; the first \<^verbatim>\<open>JSON.parse\<close>
  that throws ends \<open>rowToPreferences\<close>, there is no handler.
\<close>

definition rowToPreferences :: "env \<Rightarrow> PreferencesRow \<Rightarrow> error + NotificationPreferences" where
  "rowToPreferences E row =
     (case JSON_parse E (p_task_assigned row) of None \<Rightarrow> Inl SyntaxError | Some a \<Rightarrow>
      case JSON_parse E (p_task_status_changed row) of None \<Rightarrow> Inl SyntaxError | Some b \<Rightarrow>
      case JSON_parse E (p_comment_added row) of None \<Rightarrow> Inl SyntaxError | Some c \<Rightarrow>
      case JSON_parse E (p_project_invited row) of None \<Rightarrow> Inl SyntaxError | Some d \<Rightarrow>
      case JSON_parse E (p_task_due_soon row) of None \<Rightarrow> Inl SyntaxError | Some e \<Rightarrow>
        Inr \<lparr> pref_userId = p_user_id row, taskAssigned = a, taskStatusChanged = b,
              commentAdded = c, projectInvited = d, taskDueSoon = e \<rparr>)"

definition PreferencesService_get :: "env \<Rightarrow> string \<Rightarrow> world \<Rightarrow> error + NotificationPreferences" where
  "PreferencesService_get E userId w =
     (case find (\<lambda>r. p_user_id r = userId) (notification_preferences w) of
        None \<Rightarrow> Inr (DEFAULT_PREFERENCES userId)
      | Some row \<Rightarrow> rowToPreferences E row)"

section \<open>EmailService (services/email.service.ts)\<close>

record SentEmail =
  mail_id :: string
  mail_toEmail :: string
  mail_subject :: string
  mail_body :: string
  mail_createdAt :: string

definition rowToSentEmail :: "SentEmailRow \<Rightarrow> SentEmail" where
  "rowToSentEmail row =
     \<lparr> mail_id = e_id row, mail_toEmail = e_to_email row, mail_subject = e_subject row,
       mail_body = e_body row, mail_createdAt = e_created_at row \<rparr>"

definition insert_sent_email :: "SentEmailRow \<Rightarrow> world \<Rightarrow> error + world" where
  "insert_sent_email r w =
     (if e_id r \<in> set (map e_id (sent_emails w)) then Inl SqliteError
      else Inr (w\<lparr>sent_emails := sent_emails w @ [r]\<rparr>))"

definition EmailService_send ::
  "env \<Rightarrow> string \<Rightarrow> string \<Rightarrow> string \<Rightarrow> world \<Rightarrow> (error + SentEmail) \<times> world"
where
  "EmailService_send E toEmail subject body w =
     (let (i, w1) = draw_id E w;
          w2 = w1\<lparr>console := console w1 @
                 [''[EMAIL] To: '' @ toEmail @ '' | Subject: '' @ subject @ '' | Body: '' @ body]\<rparr>;
          (now, w3) = read_clock E w2
      in case insert_sent_email
                \<lparr> e_id = i, e_to_email = toEmail, e_subject = subject, e_body = body,
                  e_created_at = now \<rparr> w3 of
           Inl e \<Rightarrow> (Inl e, w3)
         | Inr w4 \<Rightarrow>
             (case find (\<lambda>r. e_id r = i) (sent_emails w4) of
                None \<Rightarrow> (Inl TypeError, w4)
              | Some r \<Rightarrow> (Inr (rowToSentEmail r), w4)))"

section \<open>WebhookService (services/webhook.service.ts)\<close>

record WebhookConfig =
  wh_id :: string
  wh_userId :: string
  wh_url :: string
  wh_secret :: string
  wh_events :: json
  wh_active :: bool
  wh_createdAt :: string

record WebhookDelivery =
  del_id :: string
  del_webhookId :: string
  del_eventType :: string
  del_payload :: json
  del_status :: delivery_status
  del_responseCode :: "int option"
  del_attempts :: int
  del_lastAttemptAt :: "string option"
  del_createdAt :: string

record UpdateWebhookRequest =
  upd_url :: "string option"
  upd_secret :: "string option"
  upd_events :: "NotificationType list option"
  upd_active :: "bool option"

definition rowToWebhook :: "env \<Rightarrow> WebhookRow \<Rightarrow> error + WebhookConfig" where
  "rowToWebhook E row =
     (case JSON_parse E (w_events row) of
        None \<Rightarrow> Inl SyntaxError
      | Some evs \<Rightarrow>
          Inr \<lparr> wh_id = w_id row, wh_userId = w_user_id row, wh_url = w_url row,
                wh_secret = w_secret row, wh_events = evs, wh_active = (w_active row = 1),
                wh_createdAt = w_created_at row \<rparr>)"

definition rowToDelivery :: "env \<Rightarrow> DeliveryRow \<Rightarrow> error + WebhookDelivery" where
  "rowToDelivery E row =
     (case JSON_parse E (d_payload row) of
        None \<Rightarrow> Inl SyntaxError
      | Some p \<Rightarrow>
          Inr \<lparr> del_id = d_id row, del_webhookId = d_webhook_id row,
                del_eventType = d_event_type row, del_payload = p, del_status = d_status row,
                del_responseCode = d_response_code row, del_attempts = d_attempts row,
                del_lastAttemptAt = d_last_attempt_at row, del_createdAt = d_created_at row \<rparr>)"

definition signPayload :: "env \<Rightarrow> string \<Rightarrow> string \<Rightarrow> string" where
  "signPayload E payload secret = hmac_sha256_hex E secret payload"

definition RETRY_DELAYS :: "nat list" where
  "RETRY_DELAYS = [1000, 5000, 15000]"

definition maxAttempts :: nat where
  "maxAttempts = 3"

definition WebhookService_getById ::
  "env \<Rightarrow> string \<Rightarrow> string \<Rightarrow> world \<Rightarrow> error + WebhookConfig option"
where
  "WebhookService_getById E webhookId userId w =
     (case find (\<lambda>r. w_id r = webhookId \<and> w_user_id r = userId) (webhooks w) of
        None \<Rightarrow> Inr None
      | Some row \<Rightarrow>
          (case rowToWebhook E row of Inl e \<Rightarrow> Inl e | Inr c \<Rightarrow> Inr (Some c)))"

text \<open>
  The \<^verbatim>\<open>UPDATE webhooks SET ... WHERE id = ? AND user_id = ?\<close> that \<open>update\<close> builds:
  one assignment per field the request defines, in the order url, secret, events, active.
\<close>

definition apply_updates :: "env \<Rightarrow> UpdateWebhookRequest \<Rightarrow> WebhookRow \<Rightarrow> WebhookRow" where
  "apply_updates E req r =
     (let r1 = (case upd_url req of None \<Rightarrow> r | Some u \<Rightarrow> r\<lparr>w_url := u\<rparr>);
          r2 = (case upd_secret req of None \<Rightarrow> r1 | Some s \<Rightarrow> r1\<lparr>w_secret := s\<rparr>);
          r3 = (case upd_events req of None \<Rightarrow> r2
                | Some evs \<Rightarrow>
                    r2\<lparr>w_events := JSON_stringify E (JArray (map (\<lambda>t. JString (type_text t)) evs))\<rparr>);
          r4 = (case upd_active req of None \<Rightarrow> r3 | Some a \<Rightarrow> r3\<lparr>w_active := (if a then 1 else 0)\<rparr>)
      in r4)"

definition WebhookService_update ::
  "env \<Rightarrow> string \<Rightarrow> string \<Rightarrow> UpdateWebhookRequest \<Rightarrow> world
     \<Rightarrow> (error + WebhookConfig option) \<times> world"
where
  "WebhookService_update E webhookId userId req w =
     (case WebhookService_getById E webhookId userId w of
        Inl e \<Rightarrow> (Inl e, w)
      | Inr None \<Rightarrow> (Inr None, w)
      | Inr (Some existing) \<Rightarrow>
          (let w' = (if upd_url req \<noteq> None \<or> upd_secret req \<noteq> None
                        \<or> upd_events req \<noteq> None \<or> upd_active req \<noteq> None
                     then w\<lparr>webhooks :=
                            map (\<lambda>r. if w_id r = webhookId \<and> w_user_id r = userId
                                      then apply_updates E req r else r) (webhooks w)\<rparr>
                     else w)
           in (WebhookService_getById E webhookId userId w', w')))"

text \<open>
  \<^verbatim>\<open>DELETE FROM webhooks WHERE id = ? AND user_id = ?\<close>. The schema switches
  \<open>foreign_keys\<close> on and \<open>webhook_deliveries.webhook_id\<close> references \<open>webhooks(id)\<close>
  with no action given, so a delete that would leave a delivery row without its webhook
  is refused. \<open>changes\<close> is the number of rows deleted.
\<close>

definition WebhookService_delete :: "string \<Rightarrow> string \<Rightarrow> world \<Rightarrow> (error + bool) \<times> world" where
  "WebhookService_delete webhookId userId w =
     (let doomed = filter (\<lambda>r. w_id r = webhookId \<and> w_user_id r = userId) (webhooks w);
          kept = filter (\<lambda>r. \<not> (w_id r = webhookId \<and> w_user_id r = userId)) (webhooks w)
      in if doomed = [] then (Inr False, w)
         else if webhookId \<in> set (map d_webhook_id (webhook_deliveries w))
                 \<and> webhookId \<notin> set (map w_id kept)
         then (Inl SqliteError, w)
         else (Inr (0 < length doomed), w\<lparr>webhooks := kept\<rparr>))"

text \<open>
  \<open>getDeliveries\<close> orders by \<open>created_at\<close> descending as \<open>list\<close> does: deliveries
  created in the same second come earliest insertion first.
\<close>

definition WebhookService_getDeliveries ::
  "env \<Rightarrow> string \<Rightarrow> string \<Rightarrow> world \<Rightarrow> error + WebhookDelivery list"
where
  "WebhookService_getDeliveries E webhookId userId w =
     (case WebhookService_getById E webhookId userId w of
        Inl e \<Rightarrow> Inl e
      | Inr None \<Rightarrow> Inr []
      | Inr (Some wh) \<Rightarrow>
          map_result (rowToDelivery E)
            (rev (sort_key d_created_at
               (rev (filter (\<lambda>r. d_webhook_id r = webhookId) (webhook_deliveries w))))))"

text \<open>
  The two \<^verbatim>\<open>UPDATE webhook_deliveries ... WHERE id = ?\<close> statements of
  \<open>attemptDelivery\<close>: after a response (the response code is stored) and in the
  \<^verbatim>\<open>catch\<close> block (it is not).
\<close>

definition update_delivery ::
  "string \<Rightarrow> (DeliveryRow \<Rightarrow> DeliveryRow) \<Rightarrow> world \<Rightarrow> world"
where
  "update_delivery deliveryId f w =
     w\<lparr>webhook_deliveries :=
         map (\<lambda>r. if d_id r = deliveryId then f r else r) (webhook_deliveries w)\<rparr>"

definition record_response :: "nat \<Rightarrow> int \<Rightarrow> string \<Rightarrow> DeliveryRow \<Rightarrow> DeliveryRow" where
  "record_response attempt status now r =
     r\<lparr> d_attempts := int attempt + 1, d_response_code := Some status,
        d_last_attempt_at := Some now,
        d_status := (if 200 \<le> status \<and> status \<le> 299 then delivered
                     else if maxAttempts \<le> attempt + 1 then failed else pending) \<rparr>"

definition record_exception :: "nat \<Rightarrow> string \<Rightarrow> DeliveryRow \<Rightarrow> DeliveryRow" where
  "record_exception attempt now r =
     r\<lparr> d_attempts := int attempt + 1, d_last_attempt_at := Some now,
        d_status := (if maxAttempts \<le> attempt + 1 then failed else pending) \<rparr>"

text \<open>
  One iteration of the loop of \<open>attemptDelivery\<close>: the wait before a retry, the POST,
  the update of the delivery row. It returns whether the loop returns here
  (\<^verbatim>\<open>if (response.ok) return\<close>).
\<close>

definition attempt_once ::
  "env \<Rightarrow> string \<Rightarrow> WebhookConfig \<Rightarrow> string \<Rightarrow> nat \<Rightarrow> world \<Rightarrow> bool \<times> world"
where
  "attempt_once E deliveryId wh payload attempt w =
     (let w1 = (if 0 < attempt then w\<lparr>slept := slept w @ [RETRY_DELAYS ! (attempt - 1)]\<rparr> else w);
          rq = \<lparr> rq_url = wh_url wh, rq_signature = signPayload E payload (wh_secret wh),
                 rq_body = payload \<rparr>;
          outcome = fetch E (length (http_log w1)) rq;
          w2 = w1\<lparr>http_log := http_log w1 @ [rq]\<rparr>;
          (now, w3) = read_clock E w2
      in case outcome of
           Response status \<Rightarrow>
             (200 \<le> status \<and> status \<le> 299,
              update_delivery deliveryId (record_response attempt status now) w3)
         | NetworkFailure \<Rightarrow>
             (False, update_delivery deliveryId (record_exception attempt now) w3))"

function attempt_loop ::
  "env \<Rightarrow> string \<Rightarrow> WebhookConfig \<Rightarrow> string \<Rightarrow> nat \<Rightarrow> world \<Rightarrow> world"
where
  "attempt_loop E deliveryId wh payload attempt w =
     (if attempt < maxAttempts
      then (case attempt_once E deliveryId wh payload attempt w of
              (True, w') \<Rightarrow> w'
            | (False, w') \<Rightarrow> attempt_loop E deliveryId wh payload (attempt + 1) w')
      else w)"
  by pat_completeness auto
termination
  by (relation "measure (\<lambda>(E, deliveryId, wh, payload, attempt, w). maxAttempts - attempt)") auto

definition WebhookService_attemptDelivery ::
  "env \<Rightarrow> string \<Rightarrow> WebhookConfig \<Rightarrow> string \<Rightarrow> world \<Rightarrow> world"
where
  "WebhookService_attemptDelivery E deliveryId wh payload w =
     attempt_loop E deliveryId wh payload 0 w"

text \<open>
  \<^verbatim>\<open>webhook.events.includes(eventType)\<close> on what \<^verbatim>\<open>JSON.parse\<close> returned: an
  array has \<open>includes\<close> (element equality), a string has it too (substring), and on
  anything else the call throws a TypeError.
\<close>

fun has_substring :: "string \<Rightarrow> string \<Rightarrow> bool" where
  "has_substring [] p = (p = [])"
| "has_substring (c # cs) p = (take (length p) (c # cs) = p \<or> has_substring cs p)"

fun js_includes :: "json \<Rightarrow> string \<Rightarrow> error + bool" where
  "js_includes (JArray xs) s = Inr (JString s \<in> set xs)"
| "js_includes (JString t) s = Inr (has_substring t s)"
| "js_includes v s = Inl TypeError"

text \<open>
  \<^verbatim>\<open>INSERT INTO webhook_deliveries\<close>: the primary key \<open>id\<close> must be new and the
  foreign key \<open>webhook_id\<close> must name a row of \<open>webhooks\<close>.
\<close>

definition insert_delivery :: "DeliveryRow \<Rightarrow> world \<Rightarrow> error + world" where
  "insert_delivery r w =
     (if d_id r \<in> set (map d_id (webhook_deliveries w)) then Inl SqliteError
      else if d_webhook_id r \<notin> set (map w_id (webhooks w)) then Inl SqliteError
      else Inr (w\<lparr>webhook_deliveries := webhook_deliveries w @ [r]\<rparr>))"

definition new_delivery :: "string \<Rightarrow> string \<Rightarrow> string \<Rightarrow> string \<Rightarrow> string \<Rightarrow> DeliveryRow" where
  "new_delivery deliveryId webhookId eventType payloadStr now =
     \<lparr> d_id = deliveryId, d_webhook_id = webhookId, d_event_type = eventType,
       d_payload = payloadStr, d_status = pending, d_response_code = None, d_attempts = 0,
       d_last_attempt_at = None, d_created_at = now \<rparr>"

text \<open>
  The loop of \<open>deliver\<close> over the rows selected. Besides what the source computes (the
  outcome and the state after), \<open>deliver_loop\<close> returns a record of its run that the
  source does not keep: the states in which it called \<open>attemptDelivery\<close>, in order.
  \<open>deliver\<close> is the loop without that record, \<open>deliver_handed\<close> is the record.
\<close>

fun deliver_loop ::
  "env \<Rightarrow> NotificationType \<Rightarrow> json \<Rightarrow> WebhookRow list \<Rightarrow> world
     \<Rightarrow> (error + unit) \<times> world \<times> world list"
where
  "deliver_loop E eventType payload [] w = (Inr (), w, [])"
| "deliver_loop E eventType payload (webhookRow # rest) w =
     (case rowToWebhook E webhookRow of
        Inl e \<Rightarrow> (Inl e, w, [])
      | Inr wh \<Rightarrow>
          (case js_includes (wh_events wh) (type_text eventType) of
             Inl e \<Rightarrow> (Inl e, w, [])
           | Inr False \<Rightarrow> deliver_loop E eventType payload rest w
           | Inr True \<Rightarrow>
               (let (deliveryId, w1) = draw_id E w;
                    payloadStr = JSON_stringify E payload;
                    (now, w2) = read_clock E w1
                in case insert_delivery
                          (new_delivery deliveryId (wh_id wh) (type_text eventType) payloadStr now) w2 of
                     Inl e \<Rightarrow> (Inl e, w2, [])
                   | Inr w3 \<Rightarrow>
                       (case deliver_loop E eventType payload rest
                               (WebhookService_attemptDelivery E deliveryId wh payloadStr w3) of
                          (outcome, w', handed) \<Rightarrow> (outcome, w', w3 # handed)))))"

definition WebhookService_deliver ::
  "env \<Rightarrow> NotificationType \<Rightarrow> json \<Rightarrow> string \<Rightarrow> world \<Rightarrow> (error + unit) \<times> world"
where
  "WebhookService_deliver E eventType payload userId w =
     (case deliver_loop E eventType payload
             (filter (\<lambda>r. w_user_id r = userId \<and> w_active r = 1) (webhooks w)) w of
        (outcome, w', handed) \<Rightarrow> (outcome, w'))"

definition deliver_handed ::
  "env \<Rightarrow> NotificationType \<Rightarrow> json \<Rightarrow> string \<Rightarrow> world \<Rightarrow> world list"
where
  "deliver_handed E eventType payload userId w =
     snd (snd (deliver_loop E eventType payload
                 (filter (\<lambda>r. w_user_id r = userId \<and> w_active r = 1) (webhooks w)) w))"

section \<open>The preference resolver as the specification words it\<close>

text \<open>
  Section 4.1 of the specification describes \<open>resolveChannels\<close>; the source has no
  function of that name. The definitions of this section follow the specification's
  words and are only compared with the code: an explicit channel list is used verbatim;
  otherwise the stored row of the user is read, and a type whose stored text is missing
  or is not a valid channel set falls back to that type's default.
\<close>

fun spec_default_channels :: "NotificationType \<Rightarrow> NotificationChannel list" where
  "spec_default_channels task_assigned = [in_app]"
| "spec_default_channels task_status_changed = [in_app]"
| "spec_default_channels comment_added = [in_app]"
| "spec_default_channels project_invited = [in_app, email]"
| "spec_default_channels task_due_soon = [in_app, email]"

fun spec_stored_text :: "NotificationType \<Rightarrow> PreferencesRow \<Rightarrow> string" where
  "spec_stored_text task_assigned row = p_task_assigned row"
| "spec_stored_text task_status_changed row = p_task_status_changed row"
| "spec_stored_text comment_added row = p_comment_added row"
| "spec_stored_text project_invited row = p_project_invited row"
| "spec_stored_text task_due_soon row = p_task_due_soon row"

fun spec_channel_name :: "json \<Rightarrow> string option" where
  "spec_channel_name (JString s) =
     (if s = ''in_app'' \<or> s = ''email'' \<or> s = ''webhook'' then Some s else None)"
| "spec_channel_name v = None"

fun spec_valid_channel_set :: "json \<Rightarrow> string list option" where
  "spec_valid_channel_set (JArray xs) = those (map spec_channel_name xs)"
| "spec_valid_channel_set v = None"

definition spec_resolveChannels ::
  "env \<Rightarrow> world \<Rightarrow> string \<Rightarrow> NotificationType \<Rightarrow> NotificationChannel list option \<Rightarrow> string list"
where
  "spec_resolveChannels E w userId t explicitChannels =
     (case explicitChannels of
        Some cs \<Rightarrow> map channel_text cs
      | None \<Rightarrow>
          (case find (\<lambda>r. p_user_id r = userId) (notification_preferences w) of
             None \<Rightarrow> map channel_text (spec_default_channels t)
           | Some row \<Rightarrow>
               (case JSON_parse E (spec_stored_text t row) of
                  None \<Rightarrow> map channel_text (spec_default_channels t)
                | Some v \<Rightarrow>
                    (case spec_valid_channel_set v of
                       None \<Rightarrow> map channel_text (spec_default_channels t)
                     | Some names \<Rightarrow> names))))"

section \<open>Auxiliary definitions for the proofs\<close>

text \<open>The row that one iteration of \<open>send\<close> inserts in state \<open>w\<close>.\<close>

definition sent_row ::
  "env \<Rightarrow> SendNotificationRequest \<Rightarrow> NotificationChannel \<Rightarrow> world \<Rightarrow> NotificationRow"
where
  "sent_row E req channel w =
     \<lparr> n_id = nanoid E (ids_drawn w), n_user_id = req_userId req,
       n_type = type_text (req_type req), n_channel = channel_text channel,
       n_title = req_title req, n_body = req_body req,
       n_metadata = JSON_stringify E (case req_metadata req of None \<Rightarrow> JObject [] | Some m \<Rightarrow> m),
       n_read = 0, n_created_at = datetime_now E (clock_reads w) \<rparr>"







text \<open>
  For the retry loop: whether an outcome of \<open>fetch\<close> is a response with \<open>ok\<close> set
  (status 200 to 299), the request every attempt sends, the update an attempt makes to
  the delivery row for its outcome, and what the row of a delivery looks like after an
  attempt: \<open>n\<close> attempts, status \<open>st\<close>, last attempt at \<open>t\<close>, every other column
  but the response code as before. Rows of other deliveries are as before.
\<close>

fun is_ok :: "fetch_result \<Rightarrow> bool" where
  "is_ok (Response status) = (200 \<le> status \<and> status \<le> 299)"
| "is_ok NetworkFailure = False"

definition delivery_request :: "env \<Rightarrow> WebhookConfig \<Rightarrow> string \<Rightarrow> http_request" where
  "delivery_request E wh payload =
     \<lparr> rq_url = wh_url wh, rq_signature = signPayload E payload (wh_secret wh),
       rq_body = payload \<rparr>"

fun record_outcome :: "nat \<Rightarrow> fetch_result \<Rightarrow> string \<Rightarrow> DeliveryRow \<Rightarrow> DeliveryRow" where
  "record_outcome attempt (Response status) now r = record_response attempt status now r"
| "record_outcome attempt NetworkFailure now r = record_exception attempt now r"

definition ledger_row ::
  "string \<Rightarrow> int \<Rightarrow> delivery_status \<Rightarrow> string \<Rightarrow> DeliveryRow \<Rightarrow> DeliveryRow \<Rightarrow> bool"
where
  "ledger_row deliveryId n st t r r' =
     (if d_id r = deliveryId
      then d_attempts r' = n \<and> d_status r' = st \<and> d_last_attempt_at r' = Some t
           \<and> d_id r' = d_id r \<and> d_webhook_id r' = d_webhook_id r
           \<and> d_event_type r' = d_event_type r \<and> d_payload r' = d_payload r
           \<and> d_created_at r' = d_created_at r
      else r' = r)"

definition status_after :: "nat \<Rightarrow> fetch_result \<Rightarrow> delivery_status" where
  "status_after attempt outcome =
     (if is_ok outcome then delivered else if maxAttempts \<le> attempt + 1 then failed else pending)"

text \<open>The state after the first \<open>k\<close> iterations of the retry loop, whatever their outcomes.\<close>

primrec after_attempts ::
  "env \<Rightarrow> string \<Rightarrow> WebhookConfig \<Rightarrow> string \<Rightarrow> nat \<Rightarrow> world \<Rightarrow> world"
where
  "after_attempts E deliveryId wh payload 0 w = w"
| "after_attempts E deliveryId wh payload (Suc k) w =
     snd (attempt_once E deliveryId wh payload k (after_attempts E deliveryId wh payload k w))"

text \<open>A row of the delivery \<open>deliveryId\<close> keeps what identifies it; other rows are as before.\<close>

definition same_delivery :: "string \<Rightarrow> DeliveryRow \<Rightarrow> DeliveryRow \<Rightarrow> bool" where
  "same_delivery deliveryId r r' =
     (if d_id r = deliveryId
      then d_id r' = d_id r \<and> d_webhook_id r' = d_webhook_id r
           \<and> d_event_type r' = d_event_type r \<and> d_payload r' = d_payload r
           \<and> d_created_at r' = d_created_at r
      else r' = r)"

text \<open>
  For \<open>deliver\<close>: the subscribed events of a webhook row when its \<open>events\<close> text is a
  JSON array, whether the row is subscribed to an event type, and the request that is
  sent to the row's URL for a payload.
\<close>

definition events_of :: "env \<Rightarrow> WebhookRow \<Rightarrow> json list option" where
  "events_of E r = (case JSON_parse E (w_events r) of Some (JArray xs) \<Rightarrow> Some xs | _ \<Rightarrow> None)"

definition subscribed :: "env \<Rightarrow> NotificationType \<Rightarrow> WebhookRow \<Rightarrow> bool" where
  "subscribed E eventType r =
     (case events_of E r of Some xs \<Rightarrow> JString (type_text eventType) \<in> set xs | None \<Rightarrow> False)"

definition request_for :: "env \<Rightarrow> json \<Rightarrow> WebhookRow \<Rightarrow> http_request" where
  "request_for E payload r =
     \<lparr> rq_url = w_url r,
       rq_signature = signPayload E (JSON_stringify E payload) (w_secret r),
       rq_body = JSON_stringify E payload \<rparr>"

text \<open>
  The row \<open>f\<close> is what has become of the delivery created for webhook row \<open>r\<close>: created
  pending with 0 attempts, it has had between one and three attempts and is delivered
  or failed.
\<close>

definition delivery_settled ::
  "env \<Rightarrow> NotificationType \<Rightarrow> json \<Rightarrow> WebhookRow \<Rightarrow> DeliveryRow \<Rightarrow> bool"
where
  "delivery_settled E eventType payload r f =
     (\<exists>now n st t.
        ledger_row (d_id f) n st t
          (new_delivery (d_id f) (w_id r) (type_text eventType) (JSON_stringify E payload) now) f
        \<and> 1 \<le> n \<and> n \<le> 3 \<and> (st = delivered \<or> st = failed))"

text \<open>
  The state \<open>c\<close> is the one in which \<open>deliver\<close> called \<open>attemptDelivery\<close> for webhook
  row \<open>r\<close>, in a run that ended in state \<open>w'\<close> with \<open>f\<close> the row of that delivery:
  the last row of the table in \<open>c\<close> is the row just inserted, for this webhook, event
  type and payload, with status pending, 0 attempts, no response code and no attempt
  time, under an id no earlier row has; the rows before it are the rows that \<open>w'\<close> has
  at these places; \<open>f\<close> stands in \<open>w'\<close> where the new row stands in \<open>c\<close>, under the
  same id; and \<open>attemptDelivery\<close> run on \<open>c\<close> leaves the table as \<open>w'\<close> has it up to
  that row.
\<close>

definition delivery_created ::
  "env \<Rightarrow> NotificationType \<Rightarrow> json \<Rightarrow> world \<Rightarrow> WebhookRow \<Rightarrow> world \<Rightarrow> DeliveryRow \<Rightarrow> bool"
where
  "delivery_created E eventType payload w' r c f =
     (webhook_deliveries c \<noteq> []
      \<and> d_id (last (webhook_deliveries c)) = d_id f
      \<and> d_webhook_id (last (webhook_deliveries c)) = w_id r
      \<and> d_event_type (last (webhook_deliveries c)) = type_text eventType
      \<and> d_payload (last (webhook_deliveries c)) = JSON_stringify E payload
      \<and> d_status (last (webhook_deliveries c)) = pending
      \<and> d_attempts (last (webhook_deliveries c)) = 0
      \<and> d_response_code (last (webhook_deliveries c)) = None
      \<and> d_last_attempt_at (last (webhook_deliveries c)) = None
      \<and> d_created_at (last (webhook_deliveries c)) = d_created_at f
      \<and> d_id f \<notin> set (map d_id (butlast (webhook_deliveries c)))
      \<and> butlast (webhook_deliveries c)
           = take (length (webhook_deliveries c) - 1) (webhook_deliveries w')
      \<and> length (webhook_deliveries c) \<le> length (webhook_deliveries w')
      \<and> webhook_deliveries w' ! (length (webhook_deliveries c) - 1) = f
      \<and> (case rowToWebhook E r of
            Inl e \<Rightarrow> False
          | Inr wh \<Rightarrow>
              webhook_deliveries
                  (WebhookService_attemptDelivery E (d_id f) wh (JSON_stringify E payload) c)
                = take (length (webhook_deliveries c)) (webhook_deliveries w')))"

text \<open>
  The read flags only grow from \<open>w\<close> to \<open>w'\<close>: the rows of \<open>w\<close> are still there, in
  place and under their ids, and a row that was read (\<open>read = 1\<close>) is read.
\<close>

definition read_flags_kept :: "world \<Rightarrow> world \<Rightarrow> bool" where
  "read_flags_kept w w' =
     list_all2 (\<lambda>r r'. n_id r' = n_id r \<and> (n_read r = 1 \<longrightarrow> n_read r' = 1))
       (notifications w) (take (length (notifications w)) (notifications w'))"

section \<open>A concrete platform and concrete states\<close>

text \<open>
  The closed theorems below run the services on this platform. \<open>demo_parse\<close> is
  \<^verbatim>\<open>JSON.parse\<close> on the texts of the table \<open>demo_texts\<close> and throws on every other
  text, \<open>'not-json'\<close> among them; \<open>demo_stringify\<close> is \<^verbatim>\<open>JSON.stringify\<close> on the
  values of the table (no other value is serialised below). Identifiers are distinct,
  the clock stands still, and the k-th HTTP request gets the k-th listed outcome.
\<close>

definition demo_texts :: "(string \<times> json) list" where
  \<open>demo_texts =
     [(''{}'', JObject []),
      (''["in_app"]'', JArray [JString ''in_app'']),
      (''["email"]'', JArray [JString ''email'']),
      (''["in_app","email"]'', JArray [JString ''in_app'', JString ''email'']),
      (''["task_assigned"]'', JArray [JString ''task_assigned'']),
      (''["comment_added"]'', JArray [JString ''comment_added'']),
      (''{"taskId":"123"}'', JObject [(''taskId'', JString ''123'')])]\<close>

definition demo_parse :: "string \<Rightarrow> json option" where
  "demo_parse s = map_of demo_texts s"

definition demo_stringify :: "json \<Rightarrow> string" where
  "demo_stringify v =
     (case find (\<lambda>p. snd p = v) demo_texts of Some p \<Rightarrow> fst p | None \<Rightarrow> ''null'')"

definition demo_env :: "fetch_result list \<Rightarrow> env" where
  "demo_env outcomes =
     \<lparr> nanoid = (\<lambda>k. ''id-'' @ replicate k (CHR ''x'')),
       datetime_now = (\<lambda>k. ''2024-01-01 00:00:00''),
       JSON_parse = demo_parse,
       JSON_stringify = demo_stringify,
       hmac_sha256_hex = (\<lambda>secret payload. ''hmac:'' @ secret @ '':'' @ payload),
       fetch = (\<lambda>k rq. if k < length outcomes then outcomes ! k else NetworkFailure) \<rparr>"

definition empty_world :: world where
  "empty_world =
     \<lparr> notifications = [], notification_preferences = [], webhooks = [],
       webhook_deliveries = [], sent_emails = [], ids_drawn = 0, clock_reads = 0,
       http_log = [], slept = [], console = [] \<rparr>"

definition demo_row :: "string \<Rightarrow> string \<Rightarrow> int \<Rightarrow> string \<Rightarrow> NotificationRow" where
  "demo_row i u rd t =
     \<lparr> n_id = i, n_user_id = u, n_type = ''task_assigned'', n_channel = ''in_app'',
       n_title = ''Task'', n_body = ''Body'', n_metadata = ''{}'', n_read = rd,
       n_created_at = t \<rparr>"

text \<open>
  Five notifications of \<open>page-user\<close> (one of them read) and one of another user, as in
  the pagination test of the repository.
\<close>

definition five_rows :: "NotificationRow list" where
  "five_rows =
     [demo_row ''n0'' ''page-user'' 0 ''2024-01-01 00:00:00'',
      demo_row ''n1'' ''page-user'' 1 ''2024-01-01 00:00:01'',
      demo_row ''n2'' ''other-user'' 0 ''2024-01-01 00:00:02'',
      demo_row ''n3'' ''page-user'' 0 ''2024-01-01 00:00:03'',
      demo_row ''n4'' ''page-user'' 0 ''2024-01-01 00:00:04'',
      demo_row ''n5'' ''page-user'' 0 ''2024-01-01 00:00:05'']"

definition five_world :: world where
  "five_world = empty_world\<lparr>notifications := five_rows\<rparr>"


definition demo_request :: "NotificationType \<Rightarrow> NotificationChannel list option \<Rightarrow> SendNotificationRequest" where
  "demo_request t cs =
     \<lparr> req_userId = ''svc-user'', req_type = t, req_title = ''Title'', req_body = ''Body'',
       req_metadata = None, req_channels = cs \<rparr>"

text \<open>
  Webhooks of two users, as rows of the table: of \<open>svc-user\<close> one active and subscribed
  to \<open>task_assigned\<close>, one active and subscribed to \<open>comment_added\<close> only, one
  subscribed but inactive; one of \<open>owner-user\<close>, with a delivery on record.
\<close>

definition demo_hook :: "string \<Rightarrow> string \<Rightarrow> string \<Rightarrow> int \<Rightarrow> WebhookRow" where
  "demo_hook i u evs a =
     \<lparr> w_id = i, w_user_id = u, w_url = ''https://example.com/'' @ i, w_secret = ''s3cret'',
       w_events = evs, w_active = a, w_created_at = ''2024-01-01 00:00:00'' \<rparr>"

definition demo_delivery :: DeliveryRow where
  "demo_delivery =
     \<lparr> d_id = ''d0'', d_webhook_id = ''wh4'', d_event_type = ''task_assigned'',
       d_payload = ''{}'', d_status = delivered, d_response_code = Some 200, d_attempts = 1,
       d_last_attempt_at = Some ''2024-01-01 00:00:00'', d_created_at = ''2024-01-01 00:00:00'' \<rparr>"

definition hook_world :: world where
  \<open>hook_world =
     empty_world
       \<lparr> webhooks :=
           [demo_hook ''wh1'' ''svc-user'' ''["task_assigned"]'' 1,
            demo_hook ''wh2'' ''svc-user'' ''["comment_added"]'' 1,
            demo_hook ''wh3'' ''svc-user'' ''["task_assigned"]'' 0,
            demo_hook ''wh4'' ''owner-user'' ''["task_assigned"]'' 1],
         webhook_deliveries := [demo_delivery] \<rparr>\<close>

text \<open>
  The first webhook of \<open>svc-user\<close> as \<open>rowToWebhook\<close> returns it, and a state in which
  a delivery \<open>d1\<close> to it has just been created.
\<close>

definition demo_config :: WebhookConfig where
  "demo_config =
     \<lparr> wh_id = ''wh1'', wh_userId = ''svc-user'', wh_url = ''https://example.com/wh1'',
       wh_secret = ''s3cret'', wh_events = JArray [JString ''task_assigned''],
       wh_active = True, wh_createdAt = ''2024-01-01 00:00:00'' \<rparr>"

definition pending_world :: world where
  "pending_world =
     hook_world
       \<lparr> webhook_deliveries :=
           [demo_delivery,
            new_delivery ''d1'' ''wh1'' ''task_assigned'' ''{}'' ''2024-01-01 00:00:00''] \<rparr>"

text \<open>
  The preferences row that the repository's test \<open>handles corrupted JSON gracefully\<close>
  inserts: \<open>task_assigned\<close> holds a text that is not JSON, the other four columns
  hold valid channel arrays.
\<close>

definition corrupt_world :: world where
  \<open>corrupt_world =
     empty_world
       \<lparr> notification_preferences :=
           [\<lparr> p_user_id = ''corrupt-user'', p_task_assigned = ''not-json'',
              p_task_status_changed = ''["in_app"]'', p_comment_added = ''["in_app"]'',
              p_project_invited = ''["in_app","email"]'',
              p_task_due_soon = ''["in_app","email"]'' \<rparr>] \<rparr>\<close>

section \<open>Helper lemmas\<close>

lemma find_none: "(\<forall>x\<in>set xs. \<not> P x) \<Longrightarrow> find P xs = None"
  by (induction xs) auto

lemma find_some_holds: "find P xs = Some x \<Longrightarrow> P x \<and> x \<in> set xs"
  by (induction xs) (auto split: if_splits)

lemma find_append_new: "(\<forall>x\<in>set xs. \<not> P x) \<Longrightarrow> P y \<Longrightarrow> find P (xs @ [y]) = Some y"
  by (induction xs) auto

lemma map_result_all2:
  "map_result f xs = Inr ys \<Longrightarrow> list_all2 (\<lambda>x y. f x = Inr y) xs ys"
proof (induction xs arbitrary: ys)
  case Nil
  then show ?case by simp
next
  case (Cons x xs)
  then show ?case by (auto split: sum.splits)
qed

lemma map_result_length: "map_result f xs = Inr ys \<Longrightarrow> length ys = length xs"
  using map_result_all2 [of f xs ys] by (simp add: list_all2_lengthD)

lemma map_result_map:
  assumes "map_result f xs = Inr ys" and "\<And>x y. f x = Inr y \<Longrightarrow> g y = h x"
  shows "map g ys = map h xs"
proof -
  have "list_all2 (\<lambda>x y. f x = Inr y) xs ys" using assms(1) by (rule map_result_all2)
  then show ?thesis
    by (induction rule: list_all2_induct) (auto simp: assms(2))
qed


lemma rowToNotification_fields:
  "rowToNotification E r = Inr n \<Longrightarrow>
     notif_id n = n_id r \<and> notif_userId n = n_user_id r \<and> notif_type n = n_type r
     \<and> notif_channel n = n_channel r \<and> notif_title n = n_title r \<and> notif_body n = n_body r
     \<and> notif_read n = (n_read r = 1) \<and> notif_createdAt n = n_created_at r
     \<and> JSON_parse E (n_metadata r) = Some (notif_metadata n)"
  by (auto simp: rowToNotification_def split: option.splits)

lemma rowToNotification_total:
  "JSON_parse E (n_metadata r) \<noteq> None \<Longrightarrow> \<exists>n. rowToNotification E r = Inr n"
  by (auto simp: rowToNotification_def split: option.splits)

section \<open>Properties of the notification store\<close>

lemma send_channel_cases:
  "send_channel E req channel w =
     (if nanoid E (ids_drawn w) \<in> set (map n_id (notifications w))
      then (Inl SqliteError, w\<lparr>ids_drawn := Suc (ids_drawn w), clock_reads := Suc (clock_reads w)\<rparr>)
      else (rowToNotification E (sent_row E req channel w),
            w\<lparr>ids_drawn := Suc (ids_drawn w), clock_reads := Suc (clock_reads w),
              notifications := notifications w @ [sent_row E req channel w]\<rparr>))"
proof (cases "nanoid E (ids_drawn w) \<in> set (map n_id (notifications w))")
  case True
  then show ?thesis
    by (simp add: send_channel_def draw_id_def read_clock_def insert_notification_def Let_def)
next
  case False
  then have "find (\<lambda>r. n_id r = nanoid E (ids_drawn w)) (notifications w @ [sent_row E req channel w])
      = Some (sent_row E req channel w)"
    by (intro find_append_new) (force simp: sent_row_def)+
  with False show ?thesis
    by (simp add: send_channel_def draw_id_def read_clock_def insert_notification_def Let_def sent_row_def)
qed

lemma send_loop_frame:
  "send_loop E req cs acc w = (r, w') \<Longrightarrow>
     notification_preferences w' = notification_preferences w \<and> webhooks w' = webhooks w
     \<and> webhook_deliveries w' = webhook_deliveries w \<and> sent_emails w' = sent_emails w
     \<and> http_log w' = http_log w \<and> slept w' = slept w \<and> console w' = console w"
proof (induction cs arbitrary: acc w)
  case Nil
  then show ?case by simp
next
  case (Cons c cs)
  show ?case
  proof (cases "send_channel E req c w")
    case (Pair res w1)
    have fr: "notification_preferences w1 = notification_preferences w \<and> webhooks w1 = webhooks w
     \<and> webhook_deliveries w1 = webhook_deliveries w \<and> sent_emails w1 = sent_emails w
     \<and> http_log w1 = http_log w \<and> slept w1 = slept w \<and> console w1 = console w"
      using Pair by (auto simp: send_channel_cases split: if_splits)
    show ?thesis
    proof (cases res)
      case (Inl e)
      with Pair Cons.prems fr show ?thesis by simp
    next
      case (Inr n)
      with Pair Cons.prems have "send_loop E req cs (acc @ [n]) w1 = (r, w')" by simp
      from Cons.IH [OF this] fr show ?thesis by simp
    qed
  qed
qed

lemma send_loop_appends:
  "send_loop E req cs acc w = (r, w') \<Longrightarrow>
     \<exists>rows. notifications w' = notifications w @ rows
       \<and> list_all (\<lambda>x. n_read x = 0 \<and> n_user_id x = req_userId req) rows"
proof (induction cs arbitrary: acc w)
  case Nil
  then show ?case by auto
next
  case (Cons c cs)
  show ?case
  proof (cases "send_channel E req c w")
    case (Pair res w1)
    have app: "\<exists>rows. notifications w1 = notifications w @ rows
       \<and> list_all (\<lambda>x. n_read x = 0 \<and> n_user_id x = req_userId req) rows"
      using Pair by (auto simp: send_channel_cases sent_row_def split: if_splits)
    show ?thesis
    proof (cases res)
      case (Inl e)
      with Pair Cons.prems app show ?thesis by simp
    next
      case (Inr n)
      with Pair Cons.prems have "send_loop E req cs (acc @ [n]) w1 = (r, w')" by simp
      from Cons.IH [OF this] obtain rows' where
        r': "notifications w' = notifications w1 @ rows'"
            "list_all (\<lambda>x. n_read x = 0 \<and> n_user_id x = req_userId req) rows'" by blast
      from app obtain rows1 where
        r1: "notifications w1 = notifications w @ rows1"
            "list_all (\<lambda>x. n_read x = 0 \<and> n_user_id x = req_userId req) rows1" by blast
      have "notifications w' = notifications w @ (rows1 @ rows')" using r' r1 by simp
      moreover have "list_all (\<lambda>x. n_read x = 0 \<and> n_user_id x = req_userId req) (rows1 @ rows')"
        using r' r1 by simp
      ultimately show ?thesis by blast
    qed
  qed
qed

lemma send_loop_Inr:
  "send_loop E req cs acc w = (Inr ns, w') \<Longrightarrow>
     \<exists>rows new. ns = acc @ new \<and> notifications w' = notifications w @ rows
       \<and> map_result (rowToNotification E) rows = Inr new
       \<and> map n_channel rows = map channel_text cs"
proof (induction cs arbitrary: acc w)
  case Nil
  then show ?case by auto
next
  case (Cons c cs)
  show ?case
  proof (cases "nanoid E (ids_drawn w) \<in> set (map n_id (notifications w))")
    case True
    with Cons.prems show ?thesis by (simp add: send_channel_cases)
  next
    case False
    let ?row = "sent_row E req c w"
    let ?w1 = "w\<lparr>ids_drawn := Suc (ids_drawn w), clock_reads := Suc (clock_reads w),
              notifications := notifications w @ [?row]\<rparr>"
    have sc: "send_channel E req c w = (rowToNotification E ?row, ?w1)"
      using False by (simp add: send_channel_cases)
    show ?thesis
    proof (cases "rowToNotification E ?row")
      case (Inl e)
      with sc Cons.prems show ?thesis by simp
    next
      case (Inr n)
      with sc Cons.prems have "send_loop E req cs (acc @ [n]) ?w1 = (Inr ns, w')" by simp
      from Cons.IH [OF this] obtain rows new where
        rows: "ns = (acc @ [n]) @ new" "notifications w' = notifications ?w1 @ rows"
          "map_result (rowToNotification E) rows = Inr new"
          "map n_channel rows = map channel_text cs"
        by blast
      have "ns = acc @ (n # new)" using rows(1) by simp
      moreover have "notifications w' = notifications w @ (?row # rows)" using rows(2) by simp
      moreover have "map_result (rowToNotification E) (?row # rows) = Inr (n # new)"
        using rows(3) Inr by simp
      moreover have "map n_channel (?row # rows) = map channel_text (c # cs)"
        using rows(4) by (simp add: sent_row_def)
      ultimately show ?thesis by blast
    qed
  qed
qed

lemma markAsRead_not_owned:
  assumes "\<forall>r\<in>set (notifications w). n_id r = nid \<longrightarrow> n_user_id r \<noteq> uid"
  shows "NotificationService_markAsRead E nid uid w = (Inr None, w)"
proof -
  have "find (\<lambda>r. n_id r = nid \<and> n_user_id r = uid) (notifications w) = None"
    using assms by (intro find_none) auto
  then show ?thesis by (simp add: NotificationService_markAsRead_def)
qed

lemma markAsRead_owned_state:
  "find (\<lambda>r. n_id r = nid \<and> n_user_id r = uid) (notifications w) = Some row
   \<Longrightarrow> snd (NotificationService_markAsRead E nid uid w)
       = w\<lparr>notifications := map (\<lambda>r. if n_id r = nid then r\<lparr>n_read := 1\<rparr> else r) (notifications w)\<rparr>"
  by (simp add: NotificationService_markAsRead_def Let_def split: sum.splits)

lemma markAsRead_owned_result:
  assumes "find (\<lambda>r. n_id r = nid \<and> n_user_id r = uid) (notifications w) = Some row"
    and "JSON_parse E (n_metadata row) = Some m"
  shows "fst (NotificationService_markAsRead E nid uid w)
       = Inr (Some \<lparr> notif_id = nid, notif_userId = uid, notif_type = n_type row,
                notif_channel = n_channel row, notif_title = n_title row,
                notif_body = n_body row, notif_metadata = m,
                notif_read = True, notif_createdAt = n_created_at row \<rparr>)"
proof -
  have "n_id row = nid \<and> n_user_id row = uid"
    using find_some_holds [OF assms(1)] by simp
  then show ?thesis
    using assms by (simp add: NotificationService_markAsRead_def Let_def rowToNotification_def)
qed

lemma filter_unread_after_markAll:
  "filter (\<lambda>r. n_user_id r = u \<and> n_read r = 0)
     (map (\<lambda>r. if n_user_id r = u \<and> n_read r = 0 then r\<lparr>n_read := 1\<rparr> else r) rows) = []"
  by (induction rows) auto

text \<open>
  C8. \<open>markAllAsRead\<close> returns the number of the user's rows that were unread before
  the call, which is what \<open>getUnreadCount\<close> returned then (0 included), and
  \<open>getUnreadCount\<close> on the resulting state is 0.
\<close>

theorem markAllAsRead_count_then_zero:
  "fst (NotificationService_markAllAsRead u w) = NotificationService_getUnreadCount u w
   \<and> fst (NotificationService_markAllAsRead u w)
       = int (length (filter (\<lambda>r. n_user_id r = u \<and> n_read r = 0) (notifications w)))
   \<and> 0 \<le> fst (NotificationService_markAllAsRead u w)
   \<and> NotificationService_getUnreadCount u (snd (NotificationService_markAllAsRead u w)) = 0"
  by (simp add: NotificationService_markAllAsRead_def NotificationService_getUnreadCount_def
      filter_unread_after_markAll)

text \<open>
  C9. \<open>markAsRead\<close> on an id of which no row belongs to the caller (rows of that id are
  another user's, or there is none) returns null and leaves the state as it was. When
  the lookup by id and caller finds a row, every row of that id is set to read, and the
  row is returned with \<open>read = true\<close> (its metadata text being JSON).
\<close>

theorem markAsRead_owner_only:
  "((\<forall>r\<in>set (notifications w). n_id r = nid \<longrightarrow> n_user_id r \<noteq> uid) \<longrightarrow>
      NotificationService_markAsRead E nid uid w = (Inr None, w))
   \<and> (\<forall>row. find (\<lambda>r. n_id r = nid \<and> n_user_id r = uid) (notifications w) = Some row \<longrightarrow>
        snd (NotificationService_markAsRead E nid uid w)
          = w\<lparr>notifications :=
                map (\<lambda>r. if n_id r = nid then r\<lparr>n_read := 1\<rparr> else r) (notifications w)\<rparr>
        \<and> (\<forall>m. JSON_parse E (n_metadata row) = Some m \<longrightarrow>
              fst (NotificationService_markAsRead E nid uid w)
                = Inr (Some \<lparr> notif_id = nid, notif_userId = uid, notif_type = n_type row,
                         notif_channel = n_channel row, notif_title = n_title row,
                         notif_body = n_body row, notif_metadata = m, notif_read = True,
                         notif_createdAt = n_created_at row \<rparr>)))"
  using markAsRead_not_owned [of w nid uid E] markAsRead_owned_state [of nid uid w _ E]
    markAsRead_owned_result [of nid uid w _ E]
  by blast

theorem markAsRead_owner_only_witness:
  "NotificationService_markAsRead (demo_env []) ''n2'' ''page-user'' five_world = (Inr None, five_world)
   \<and> NotificationService_markAsRead (demo_env []) ''fake-id'' ''page-user'' five_world = (Inr None, five_world)
   \<and> find (\<lambda>r. n_id r = ''n3'' \<and> n_user_id r = ''page-user'') (notifications five_world)
       = Some (demo_row ''n3'' ''page-user'' 0 ''2024-01-01 00:00:03'')
   \<and> JSON_parse (demo_env []) (n_metadata (demo_row ''n3'' ''page-user'' 0 ''2024-01-01 00:00:03''))
       = Some (JObject [])
   \<and> map n_read (notifications (snd (NotificationService_markAsRead (demo_env []) ''n3'' ''page-user'' five_world)))
       = [0, 1, 0, 1, 0, 0]
   \<and> map_sum id (map_option notif_read)
        (fst (NotificationService_markAsRead (demo_env []) ''n3'' ''page-user'' five_world))
       = Inr (Some True)"
proof -
  let ?E = "demo_env []"
  have other: "\<forall>r\<in>set (notifications five_world). n_id r = ''n2'' \<longrightarrow> n_user_id r \<noteq> ''page-user''"
    by (simp add: five_world_def five_rows_def empty_world_def demo_row_def)
  have none: "\<forall>r\<in>set (notifications five_world). n_id r = ''fake-id'' \<longrightarrow> n_user_id r \<noteq> ''page-user''"
    by (simp add: five_world_def five_rows_def empty_world_def demo_row_def)
  have found: "find (\<lambda>r. n_id r = ''n3'' \<and> n_user_id r = ''page-user'') (notifications five_world)
       = Some (demo_row ''n3'' ''page-user'' 0 ''2024-01-01 00:00:03'')"
    by (simp add: five_world_def five_rows_def empty_world_def demo_row_def)
  have parsed: "JSON_parse ?E (n_metadata (demo_row ''n3'' ''page-user'' 0 ''2024-01-01 00:00:03''))
       = Some (JObject [])"
    by (simp add: demo_env_def demo_parse_def demo_texts_def demo_row_def)
  have a: "NotificationService_markAsRead ?E ''n2'' ''page-user'' five_world = (Inr None, five_world)"
    using markAsRead_owner_only [of five_world "''n2''" "''page-user''" ?E] other by blast
  have b: "NotificationService_markAsRead ?E ''fake-id'' ''page-user'' five_world = (Inr None, five_world)"
    using markAsRead_owner_only [of five_world "''fake-id''" "''page-user''" ?E] none by blast
  have c: "snd (NotificationService_markAsRead ?E ''n3'' ''page-user'' five_world)
          = five_world\<lparr>notifications :=
                map (\<lambda>r. if n_id r = ''n3'' then r\<lparr>n_read := 1\<rparr> else r) (notifications five_world)\<rparr>"
    using markAsRead_owner_only [of five_world "''n3''" "''page-user''" ?E] found by blast
  have d: "fst (NotificationService_markAsRead ?E ''n3'' ''page-user'' five_world)
       = Inr (Some \<lparr> notif_id = ''n3'', notif_userId = ''page-user'',
                notif_type = n_type (demo_row ''n3'' ''page-user'' 0 ''2024-01-01 00:00:03''),
                notif_channel = n_channel (demo_row ''n3'' ''page-user'' 0 ''2024-01-01 00:00:03''),
                notif_title = n_title (demo_row ''n3'' ''page-user'' 0 ''2024-01-01 00:00:03''),
                notif_body = n_body (demo_row ''n3'' ''page-user'' 0 ''2024-01-01 00:00:03''),
                notif_metadata = JObject [], notif_read = True,
                notif_createdAt = n_created_at (demo_row ''n3'' ''page-user'' 0 ''2024-01-01 00:00:03'') \<rparr>)"
    using markAsRead_owner_only [of five_world "''n3''" "''page-user''" ?E] found parsed by blast
  have e: "map n_read (notifications (snd (NotificationService_markAsRead ?E ''n3'' ''page-user'' five_world)))
       = [0, 1, 0, 1, 0, 0]"
    unfolding c by (simp add: five_world_def five_rows_def empty_world_def demo_row_def)
  show ?thesis using a b found parsed e d by simp
qed

lemma send_loop_succeeds:
  assumes "distinct (map (nanoid E) [ids_drawn w ..< ids_drawn w + length cs])"
    and "\<forall>k\<in>{ids_drawn w ..< ids_drawn w + length cs}. nanoid E k \<notin> set (map n_id (notifications w))"
    and "JSON_parse E (JSON_stringify E (case req_metadata req of None \<Rightarrow> JObject [] | Some m \<Rightarrow> m)) \<noteq> None"
  shows "\<exists>ns w'. send_loop E req cs acc w = (Inr ns, w')"
  using assms
proof (induction cs arbitrary: acc w)
  case Nil
  then show ?case by simp
next
  case (Cons c cs)
  let ?k = "ids_drawn w"
  let ?row = "sent_row E req c w"
  let ?w1 = "w\<lparr>ids_drawn := Suc (ids_drawn w), clock_reads := Suc (clock_reads w),
              notifications := notifications w @ [?row]\<rparr>"
  have upt: "[?k ..< ?k + length (c # cs)] = ?k # [Suc ?k ..< Suc ?k + length cs]"
    by (subst upt_rec) simp
  have notin: "nanoid E ?k \<notin> set (map n_id (notifications w))"
    using Cons.prems(2) by simp
  then have sc: "send_channel E req c w = (rowToNotification E ?row, ?w1)"
    by (simp add: send_channel_cases)
  obtain n where n: "rowToNotification E ?row = Inr n"
    using Cons.prems(3) rowToNotification_total [of E ?row] by (auto simp: sent_row_def)
  have d: "distinct (map (nanoid E) [ids_drawn ?w1 ..< ids_drawn ?w1 + length cs])"
    using Cons.prems(1) unfolding upt by simp
  have fresh_head: "nanoid E ?k \<notin> set (map (nanoid E) [Suc ?k ..< Suc ?k + length cs])"
    using Cons.prems(1) unfolding upt by simp
  have f: "\<forall>k\<in>{ids_drawn ?w1 ..< ids_drawn ?w1 + length cs}.
             nanoid E k \<notin> set (map n_id (notifications ?w1))"
  proof
    fix j assume j: "j \<in> {ids_drawn ?w1 ..< ids_drawn ?w1 + length cs}"
    then have "j \<in> {?k ..< ?k + length (c # cs)}" by auto
    then have old: "nanoid E j \<notin> set (map n_id (notifications w))"
      using Cons.prems(2) by blast
    have "j \<in> set [Suc ?k ..< Suc ?k + length cs]"
      using j unfolding set_upt by simp
    then have "nanoid E j \<in> set (map (nanoid E) [Suc ?k ..< Suc ?k + length cs])"
      unfolding set_map by (rule imageI)
    then have "nanoid E j \<noteq> nanoid E ?k" using fresh_head by metis
    then show "nanoid E j \<notin> set (map n_id (notifications ?w1))"
      using old by (simp add: sent_row_def)
  qed
  have "\<exists>ns w'. send_loop E req cs (acc @ [n]) ?w1 = (Inr ns, w')"
    by (rule Cons.IH [OF d f Cons.prems(3)])
  then show ?case using sc n by simp
qed

lemma send_unfold:
  "NotificationService_send E req w =
     send_loop E req (case req_channels req of None \<Rightarrow> [in_app] | Some cs \<Rightarrow> cs) [] w"
  by (simp add: NotificationService_send_def)

lemma send_Inr_shape:
  assumes "NotificationService_send E req w = (Inr ns, w')"
  shows "\<exists>rows. notifications w' = notifications w @ rows
           \<and> map n_channel rows
               = map channel_text (case req_channels req of None \<Rightarrow> [in_app] | Some cs \<Rightarrow> cs)
           \<and> map notif_channel ns
               = map channel_text (case req_channels req of None \<Rightarrow> [in_app] | Some cs \<Rightarrow> cs)
           \<and> map notif_id ns = map n_id rows
           \<and> length ns = length (case req_channels req of None \<Rightarrow> [in_app] | Some cs \<Rightarrow> cs)
           \<and> length rows = length ns
           \<and> list_all (\<lambda>r. n_read r = 0 \<and> n_user_id r = req_userId req) rows
           \<and> list_all (\<lambda>n. \<not> notif_read n) ns"
proof -
  let ?cs = "case req_channels req of None \<Rightarrow> [in_app] | Some cs \<Rightarrow> cs"
  have loop: "send_loop E req ?cs [] w = (Inr ns, w')"
    using assms by (simp add: send_unfold)
  from send_loop_Inr [OF loop] obtain rows new where
    r: "ns = [] @ new" "notifications w' = notifications w @ rows"
       "map_result (rowToNotification E) rows = Inr new"
       "map n_channel rows = map channel_text ?cs" by blast
  from send_loop_appends [OF loop] obtain rows' where
    r': "notifications w' = notifications w @ rows'"
        "list_all (\<lambda>x. n_read x = 0 \<and> n_user_id x = req_userId req) rows'" by blast
  have same: "rows' = rows" using r(2) r'(1) by simp
  have ns: "map_result (rowToNotification E) rows = Inr ns" using r(1,3) by simp
  have ch: "map notif_channel ns = map n_channel rows"
    by (rule map_result_map [OF ns]) (simp add: rowToNotification_fields)
  have ids: "map notif_id ns = map n_id rows"
    by (rule map_result_map [OF ns]) (simp add: rowToNotification_fields)
  have len: "length ns = length rows" by (rule map_result_length [OF ns])
  have len2: "length rows = length ?cs" using r(4) by (metis length_map)
  have all2: "list_all2 (\<lambda>x y. rowToNotification E x = Inr y) rows ns"
    by (rule map_result_all2 [OF ns])
  have unread: "list_all (\<lambda>n. \<not> notif_read n) ns"
    unfolding list_all_length
  proof (intro allI impI)
    fix i assume i: "i < length ns"
    then have "rowToNotification E (rows ! i) = Inr (ns ! i)"
      using all2 by (simp add: list_all2_conv_all_nth)
    then have "notif_read (ns ! i) = (n_read (rows ! i) = 1)"
      by (simp add: rowToNotification_fields)
    moreover have "n_read (rows ! i) = 0"
      using r'(2) same i len by (simp add: list_all_length)
    ultimately show "\<not> notif_read (ns ! i)" by simp
  qed
  show ?thesis
    using r(2) r(4) ch ids len len2 r'(2) same unread by auto
qed

section \<open>What send does and does not do\<close>

lemma send_frame:
  "notification_preferences (snd (NotificationService_send E req w)) = notification_preferences w
   \<and> webhooks (snd (NotificationService_send E req w)) = webhooks w
   \<and> webhook_deliveries (snd (NotificationService_send E req w)) = webhook_deliveries w
   \<and> sent_emails (snd (NotificationService_send E req w)) = sent_emails w
   \<and> http_log (snd (NotificationService_send E req w)) = http_log w
   \<and> slept (snd (NotificationService_send E req w)) = slept w
   \<and> console (snd (NotificationService_send E req w)) = console w"
  using send_loop_frame [of E req "case req_channels req of None \<Rightarrow> [in_app] | Some cs \<Rightarrow> cs" "[]" w
      "fst (NotificationService_send E req w)" "snd (NotificationService_send E req w)"]
  by (simp add: send_unfold)

lemma send_succeeds:
  assumes "distinct (map (nanoid E)
              [ids_drawn w ..< ids_drawn w
                 + length (case req_channels req of None \<Rightarrow> [in_app] | Some cs \<Rightarrow> cs)])"
    and "\<forall>k\<in>{ids_drawn w ..< ids_drawn w
                 + length (case req_channels req of None \<Rightarrow> [in_app] | Some cs \<Rightarrow> cs)}.
            nanoid E k \<notin> set (map n_id (notifications w))"
    and "JSON_parse E (JSON_stringify E (case req_metadata req of None \<Rightarrow> JObject [] | Some m \<Rightarrow> m)) \<noteq> None"
  shows "\<exists>ns. fst (NotificationService_send E req w) = Inr ns"
  using send_loop_succeeds [OF assms, of "[]"] by (auto simp: send_unfold)

lemma send_channel_ignores_preferences:
  "send_channel E req c (w\<lparr>notification_preferences := p\<rparr>)
     = (fst (send_channel E req c w), (snd (send_channel E req c w))\<lparr>notification_preferences := p\<rparr>)"
  by (simp add: send_channel_cases sent_row_def)

lemma send_loop_ignores_preferences:
  "send_loop E req cs acc (w\<lparr>notification_preferences := p\<rparr>)
     = (fst (send_loop E req cs acc w), (snd (send_loop E req cs acc w))\<lparr>notification_preferences := p\<rparr>)"
proof (induction cs arbitrary: acc w)
  case Nil
  then show ?case by simp
next
  case (Cons c cs)
  show ?case
  proof (cases "send_channel E req c w")
    case (Pair res w1)
    then have p: "send_channel E req c (w\<lparr>notification_preferences := p\<rparr>)
        = (res, w1\<lparr>notification_preferences := p\<rparr>)"
      by (simp add: send_channel_ignores_preferences)
    show ?thesis
    proof (cases res)
      case (Inl e)
      with Pair p show ?thesis by simp
    next
      case (Inr n)
      with Pair p Cons.IH [of "acc @ [n]" w1] show ?thesis by simp
    qed
  qed
qed

lemma send_ignores_preferences:
  "fst (NotificationService_send E req (w\<lparr>notification_preferences := p\<rparr>))
     = fst (NotificationService_send E req w)"
  by (simp add: send_unfold send_loop_ignores_preferences)

lemma EmailService_send_cases:
  "EmailService_send E toEmail subject body w =
     (let line = ''[EMAIL] To: '' @ toEmail @ '' | Subject: '' @ subject @ '' | Body: '' @ body;
          row = \<lparr> e_id = nanoid E (ids_drawn w), e_to_email = toEmail, e_subject = subject,
                  e_body = body, e_created_at = datetime_now E (clock_reads w) \<rparr>
      in if nanoid E (ids_drawn w) \<in> set (map e_id (sent_emails w))
         then (Inl SqliteError,
               w\<lparr>ids_drawn := Suc (ids_drawn w), console := console w @ [line],
                 clock_reads := Suc (clock_reads w)\<rparr>)
         else (Inr (rowToSentEmail row),
               w\<lparr>ids_drawn := Suc (ids_drawn w), console := console w @ [line],
                 clock_reads := Suc (clock_reads w), sent_emails := sent_emails w @ [row]\<rparr>))"
proof (cases "nanoid E (ids_drawn w) \<in> set (map e_id (sent_emails w))")
  case True
  then show ?thesis
    by (simp add: EmailService_send_def draw_id_def read_clock_def insert_sent_email_def Let_def)
next
  case False
  let ?row = "\<lparr> e_id = nanoid E (ids_drawn w), e_to_email = toEmail, e_subject = subject,
                  e_body = body, e_created_at = datetime_now E (clock_reads w) \<rparr>"
  from False have "find (\<lambda>r. e_id r = nanoid E (ids_drawn w)) (sent_emails w @ [?row]) = Some ?row"
    by (intro find_append_new) force+
  with False show ?thesis
    by (simp add: EmailService_send_def draw_id_def read_clock_def insert_sent_email_def Let_def)
qed

text \<open>
  C5 (as amended). \<open>send\<close> inserts one row into \<open>notifications\<close> per entry of the
  channel list it uses (the request's list, or \<open>['in_app']\<close> when there is none), unread,
  in order, and returns one record per row; nothing else happens: no row is added to
  \<open>sent_emails\<close> or \<open>webhook_deliveries\<close>, no HTTP request is made, nothing is logged.
  It returns when the identifiers drawn are new and the metadata text parses.
  \<open>EmailService.send\<close> on its own persists one \<open>sent_emails\<close> row, logs one line and
  makes no HTTP request.
\<close>

theorem send_one_record_per_channel_only:
  "sent_emails (snd (NotificationService_send E req w)) = sent_emails w
   \<and> webhook_deliveries (snd (NotificationService_send E req w)) = webhook_deliveries w
   \<and> webhooks (snd (NotificationService_send E req w)) = webhooks w
   \<and> http_log (snd (NotificationService_send E req w)) = http_log w
   \<and> console (snd (NotificationService_send E req w)) = console w
   \<and> (\<forall>ns. fst (NotificationService_send E req w) = Inr ns \<longrightarrow>
         (\<exists>rows. notifications (snd (NotificationService_send E req w)) = notifications w @ rows
            \<and> length rows = length (case req_channels req of None \<Rightarrow> [in_app] | Some cs \<Rightarrow> cs)
            \<and> length ns = length (case req_channels req of None \<Rightarrow> [in_app] | Some cs \<Rightarrow> cs)
            \<and> map n_channel rows
                = map channel_text (case req_channels req of None \<Rightarrow> [in_app] | Some cs \<Rightarrow> cs)
            \<and> map notif_channel ns = map n_channel rows
            \<and> map notif_id ns = map n_id rows
            \<and> list_all (\<lambda>r. n_read r = 0 \<and> n_user_id r = req_userId req) rows))
   \<and> (distinct (map (nanoid E)
              [ids_drawn w ..< ids_drawn w
                 + length (case req_channels req of None \<Rightarrow> [in_app] | Some cs \<Rightarrow> cs)])
        \<and> (\<forall>k\<in>{ids_drawn w ..< ids_drawn w
                 + length (case req_channels req of None \<Rightarrow> [in_app] | Some cs \<Rightarrow> cs)}.
              nanoid E k \<notin> set (map n_id (notifications w)))
        \<and> JSON_parse E (JSON_stringify E (case req_metadata req of None \<Rightarrow> JObject [] | Some m \<Rightarrow> m)) \<noteq> None
        \<longrightarrow> (\<exists>ns. fst (NotificationService_send E req w) = Inr ns))
   \<and> http_log (snd (EmailService_send E toEmail subject body w)) = http_log w
   \<and> (\<forall>m. fst (EmailService_send E toEmail subject body w) = Inr m \<longrightarrow>
         sent_emails (snd (EmailService_send E toEmail subject body w))
           = sent_emails w @ [\<lparr> e_id = mail_id m, e_to_email = toEmail, e_subject = subject,
                                e_body = body, e_created_at = mail_createdAt m \<rparr>]
         \<and> length (console (snd (EmailService_send E toEmail subject body w)))
             = Suc (length (console w)))"
proof -
  have shape: "\<forall>ns. fst (NotificationService_send E req w) = Inr ns \<longrightarrow>
         (\<exists>rows. notifications (snd (NotificationService_send E req w)) = notifications w @ rows
            \<and> length rows = length (case req_channels req of None \<Rightarrow> [in_app] | Some cs \<Rightarrow> cs)
            \<and> length ns = length (case req_channels req of None \<Rightarrow> [in_app] | Some cs \<Rightarrow> cs)
            \<and> map n_channel rows
                = map channel_text (case req_channels req of None \<Rightarrow> [in_app] | Some cs \<Rightarrow> cs)
            \<and> map notif_channel ns = map n_channel rows
            \<and> map notif_id ns = map n_id rows
            \<and> list_all (\<lambda>r. n_read r = 0 \<and> n_user_id r = req_userId req) rows)"
  proof (intro allI impI)
    fix ns assume "fst (NotificationService_send E req w) = Inr ns"
    then have "NotificationService_send E req w = (Inr ns, snd (NotificationService_send E req w))"
      by (metis prod.collapse)
    from send_Inr_shape [OF this] obtain rows where
      "notifications (snd (NotificationService_send E req w)) = notifications w @ rows"
      "map n_channel rows = map channel_text (case req_channels req of None \<Rightarrow> [in_app] | Some cs \<Rightarrow> cs)"
      "map notif_channel ns = map channel_text (case req_channels req of None \<Rightarrow> [in_app] | Some cs \<Rightarrow> cs)"
      "map notif_id ns = map n_id rows"
      "length ns = length (case req_channels req of None \<Rightarrow> [in_app] | Some cs \<Rightarrow> cs)"
      "length rows = length ns"
      "list_all (\<lambda>r. n_read r = 0 \<and> n_user_id r = req_userId req) rows"
      by blast
    then show "\<exists>rows. notifications (snd (NotificationService_send E req w)) = notifications w @ rows
            \<and> length rows = length (case req_channels req of None \<Rightarrow> [in_app] | Some cs \<Rightarrow> cs)
            \<and> length ns = length (case req_channels req of None \<Rightarrow> [in_app] | Some cs \<Rightarrow> cs)
            \<and> map n_channel rows
                = map channel_text (case req_channels req of None \<Rightarrow> [in_app] | Some cs \<Rightarrow> cs)
            \<and> map notif_channel ns = map n_channel rows
            \<and> map notif_id ns = map n_id rows
            \<and> list_all (\<lambda>r. n_read r = 0 \<and> n_user_id r = req_userId req) rows"
      by (intro exI [of _ rows]) simp
  qed
  have mail_log: "http_log (snd (EmailService_send E toEmail subject body w)) = http_log w"
    by (simp add: EmailService_send_cases Let_def)
  have mail: "\<forall>m. fst (EmailService_send E toEmail subject body w) = Inr m \<longrightarrow>
         sent_emails (snd (EmailService_send E toEmail subject body w))
           = sent_emails w @ [\<lparr> e_id = mail_id m, e_to_email = toEmail, e_subject = subject,
                                e_body = body, e_created_at = mail_createdAt m \<rparr>]
         \<and> length (console (snd (EmailService_send E toEmail subject body w)))
             = Suc (length (console w))"
    by (auto simp: EmailService_send_cases Let_def rowToSentEmail_def split: if_splits)
  show ?thesis
    using send_frame [of E req w] shape send_succeeds [of E w req] mail_log mail
    by blast
qed

lemmas demo_defs =
  demo_env_def demo_parse_def demo_stringify_def demo_texts_def empty_world_def hook_world_def
  demo_hook_def demo_delivery_def demo_request_def five_world_def five_rows_def demo_row_def

theorem send_one_record_per_channel_only_witness:
  "(\<exists>ns. fst (NotificationService_send (demo_env [])
              (demo_request task_assigned (Some [in_app, email, webhook])) hook_world) = Inr ns)
   \<and> map n_channel (notifications (snd (NotificationService_send (demo_env [])
              (demo_request task_assigned (Some [in_app, email, webhook])) hook_world)))
       = [''in_app'', ''email'', ''webhook'']
   \<and> sent_emails (snd (NotificationService_send (demo_env [])
              (demo_request task_assigned (Some [in_app, email, webhook])) hook_world)) = []
   \<and> http_log (snd (NotificationService_send (demo_env [])
              (demo_request task_assigned (Some [in_app, email, webhook])) hook_world)) = []
   \<and> map e_to_email (sent_emails (snd (EmailService_send (demo_env []) ''user@example.com''
              ''Test Subject'' ''Test body'' hook_world))) = [''user@example.com'']"
proof -
  let ?E = "demo_env []"
  let ?req = "demo_request task_assigned (Some [in_app, email, webhook])"
  let ?R = "NotificationService_send ?E ?req hook_world"
  let ?M = "EmailService_send ?E ''user@example.com'' ''Test Subject'' ''Test body'' hook_world"
  note inst = send_one_record_per_channel_only
      [of ?E ?req hook_world "''user@example.com''" "''Test Subject''" "''Test body''"]
  have cs: "(case req_channels ?req of None \<Rightarrow> [in_app] | Some cs \<Rightarrow> cs) = [in_app, email, webhook]"
    by (simp add: demo_request_def)
  have upt3: "[ids_drawn hook_world ..< ids_drawn hook_world + length [in_app, email, webhook]]
      = [0, Suc 0, Suc (Suc 0)]"
    by (simp add: hook_world_def empty_world_def upt_rec)
  have h1: "distinct (map (nanoid ?E)
              [ids_drawn hook_world ..< ids_drawn hook_world
                 + length (case req_channels ?req of None \<Rightarrow> [in_app] | Some cs \<Rightarrow> cs)])"
    unfolding cs upt3 by (simp add: demo_env_def)
  have h2: "\<forall>k\<in>{ids_drawn hook_world ..< ids_drawn hook_world
                 + length (case req_channels ?req of None \<Rightarrow> [in_app] | Some cs \<Rightarrow> cs)}.
              nanoid ?E k \<notin> set (map n_id (notifications hook_world))"
    by (simp add: hook_world_def empty_world_def)
  have h3: "JSON_parse ?E (JSON_stringify ?E (case req_metadata ?req of None \<Rightarrow> JObject [] | Some m \<Rightarrow> m)) \<noteq> None"
    by (simp add: demo_defs)
  from inst h1 h2 h3 have ok: "\<exists>ns. fst ?R = Inr ns" by blast
  then obtain ns where ns: "fst ?R = Inr ns" ..
  from inst have "\<forall>ns. fst ?R = Inr ns \<longrightarrow>
         (\<exists>rows. notifications (snd ?R) = notifications hook_world @ rows
            \<and> length rows = length (case req_channels ?req of None \<Rightarrow> [in_app] | Some cs \<Rightarrow> cs)
            \<and> length ns = length (case req_channels ?req of None \<Rightarrow> [in_app] | Some cs \<Rightarrow> cs)
            \<and> map n_channel rows
                = map channel_text (case req_channels ?req of None \<Rightarrow> [in_app] | Some cs \<Rightarrow> cs)
            \<and> map notif_channel ns = map n_channel rows
            \<and> map notif_id ns = map n_id rows
            \<and> list_all (\<lambda>r. n_read r = 0 \<and> n_user_id r = req_userId ?req) rows)"
    by (elim conjE) assumption
  with ns obtain rows where rows: "notifications (snd ?R) = notifications hook_world @ rows"
     "map n_channel rows = map channel_text (case req_channels ?req of None \<Rightarrow> [in_app] | Some cs \<Rightarrow> cs)"
    by blast
  have a: "map n_channel (notifications (snd ?R)) = [''in_app'', ''email'', ''webhook'']"
    using rows unfolding cs by (simp add: hook_world_def empty_world_def)
  from inst have "sent_emails (snd ?R) = sent_emails hook_world" by (elim conjE) assumption
  then have b: "sent_emails (snd ?R) = []" by (simp add: hook_world_def empty_world_def)
  from inst have "http_log (snd ?R) = http_log hook_world" by (elim conjE) assumption
  then have c: "http_log (snd ?R) = []" by (simp add: hook_world_def empty_world_def)
  have "\<exists>m. fst ?M = Inr m"
    by (simp add: EmailService_send_cases Let_def hook_world_def empty_world_def)
  then obtain m where m: "fst ?M = Inr m" ..
  from inst have "\<forall>m. fst ?M = Inr m \<longrightarrow>
         sent_emails (snd ?M)
           = sent_emails hook_world @ [\<lparr> e_id = mail_id m, e_to_email = ''user@example.com'',
                e_subject = ''Test Subject'', e_body = ''Test body'', e_created_at = mail_createdAt m \<rparr>]
         \<and> length (console (snd ?M)) = Suc (length (console hook_world))"
    by (elim conjE) assumption
  with m have "sent_emails (snd ?M)
           = sent_emails hook_world @ [\<lparr> e_id = mail_id m, e_to_email = ''user@example.com'',
                e_subject = ''Test Subject'', e_body = ''Test body'', e_created_at = mail_createdAt m \<rparr>]"
    by blast
  then have d: "map e_to_email (sent_emails (snd ?M)) = [''user@example.com'']"
    by (simp add: hook_world_def empty_world_def)
  show ?thesis using ok a b c d by simp
qed

text \<open>
  C5 as stated fails: a request for the channels in_app, email and webhook, for a user
  with an active webhook subscribed to the event, gets its three notification rows, and
  no email row, no delivery row and no HTTP request.
\<close>

theorem send_invokes_no_email_no_webhook:
  "map_sum id (map notif_channel)
      (fst (NotificationService_send (demo_env [])
              (demo_request task_assigned (Some [in_app, email, webhook])) hook_world))
     = Inr [''in_app'', ''email'', ''webhook'']
   \<and> sent_emails (snd (NotificationService_send (demo_env [])
              (demo_request task_assigned (Some [in_app, email, webhook])) hook_world)) = []
   \<and> webhook_deliveries (snd (NotificationService_send (demo_env [])
              (demo_request task_assigned (Some [in_app, email, webhook])) hook_world))
       = [demo_delivery]
   \<and> http_log (snd (NotificationService_send (demo_env [])
              (demo_request task_assigned (Some [in_app, email, webhook])) hook_world)) = []
   \<and> map w_id (filter (\<lambda>r. w_user_id r = ''svc-user'' \<and> w_active r = 1
          \<and> map_option (\<lambda>v. js_includes v ''task_assigned'') (demo_parse (w_events r)) = Some (Inr True))
        (webhooks hook_world)) = [''wh1'']"
  by (simp add: send_unfold send_channel_cases sent_row_def rowToNotification_def demo_defs)

text \<open>
  C1 as stated fails: for an invitation to a user with no stored preferences and no
  channel list in the request, the resolver of the specification gives in_app and email;
  \<open>send\<close> delivers to in_app only.
\<close>

theorem send_without_channels_is_in_app_only:
  "map_sum id (map notif_channel)
      (fst (NotificationService_send (demo_env []) (demo_request project_invited None) empty_world))
     = Inr [''in_app'']
   \<and> spec_resolveChannels (demo_env []) empty_world ''svc-user'' project_invited None
     = [''in_app'', ''email'']
   \<and> map_sum id projectInvited (PreferencesService_get (demo_env []) ''svc-user'' empty_world)
     = Inr (JArray [JString ''in_app'', JString ''email''])"
  by (simp add: send_unfold send_channel_cases sent_row_def rowToNotification_def
      spec_resolveChannels_def PreferencesService_get_def DEFAULT_PREFERENCES_def
      channels_json_def demo_defs)

text \<open>
  C1 (as amended). \<open>send\<close> never reads the preferences: its result is the same
  whatever the \<open>notification_preferences\<close> table holds. Without a channel list in the
  request it delivers to in_app alone, for every notification type; with a channel list
  it delivers to exactly the listed channels, in order. It returns when the identifiers
  drawn are new and the metadata text parses.
\<close>

theorem send_channels_from_request_only:
  "fst (NotificationService_send E req (w\<lparr>notification_preferences := prefs\<rparr>))
     = fst (NotificationService_send E req w)
   \<and> (\<forall>ns. req_channels req = None \<and> fst (NotificationService_send E req w) = Inr ns \<longrightarrow>
         map notif_channel ns = [''in_app''])
   \<and> (\<forall>cs ns. req_channels req = Some cs \<and> fst (NotificationService_send E req w) = Inr ns \<longrightarrow>
         map notif_channel ns = map channel_text cs)
   \<and> (distinct (map (nanoid E)
              [ids_drawn w ..< ids_drawn w
                 + length (case req_channels req of None \<Rightarrow> [in_app] | Some cs \<Rightarrow> cs)])
        \<and> (\<forall>k\<in>{ids_drawn w ..< ids_drawn w
                 + length (case req_channels req of None \<Rightarrow> [in_app] | Some cs \<Rightarrow> cs)}.
              nanoid E k \<notin> set (map n_id (notifications w)))
        \<and> JSON_parse E (JSON_stringify E (case req_metadata req of None \<Rightarrow> JObject [] | Some m \<Rightarrow> m)) \<noteq> None
        \<longrightarrow> (\<exists>ns. fst (NotificationService_send E req w) = Inr ns))"
proof -
  have ch: "map notif_channel ns
        = map channel_text (case req_channels req of None \<Rightarrow> [in_app] | Some cs \<Rightarrow> cs)"
    if "fst (NotificationService_send E req w) = Inr ns" for ns
  proof -
    from that have "NotificationService_send E req w = (Inr ns, snd (NotificationService_send E req w))"
      by (metis prod.collapse)
    from send_Inr_shape [OF this] show ?thesis by blast
  qed
  have none: "\<forall>ns. req_channels req = None \<and> fst (NotificationService_send E req w) = Inr ns \<longrightarrow>
         map notif_channel ns = [''in_app'']"
    using ch by auto
  have some: "\<forall>cs ns. req_channels req = Some cs \<and> fst (NotificationService_send E req w) = Inr ns \<longrightarrow>
         map notif_channel ns = map channel_text cs"
    using ch by auto
  show ?thesis
    using send_ignores_preferences [where E=E and req=req and w=w and p=prefs] none some send_succeeds [of E w req]
    by blast
qed

theorem send_channels_from_request_only_witness:
  \<open>map_sum id (map notif_channel)
      (fst (NotificationService_send (demo_env []) (demo_request task_due_soon None)
         (empty_world\<lparr>notification_preferences :=
            [\<lparr> p_user_id = ''svc-user'', p_task_assigned = ''["email"]'',
               p_task_status_changed = ''["email"]'', p_comment_added = ''["email"]'',
               p_project_invited = ''["email"]'', p_task_due_soon = ''["email"]'' \<rparr>]\<rparr>)))
     = Inr [''in_app'']
   \<and> map_sum id (map notif_channel)
      (fst (NotificationService_send (demo_env []) (demo_request task_assigned (Some [email, in_app]))
         empty_world))
     = Inr [''email'', ''in_app'']\<close>
proof -
  let ?E = "demo_env []"
  let ?p = \<open>[\<lparr> p_user_id = ''svc-user'', p_task_assigned = ''["email"]'',
               p_task_status_changed = ''["email"]'', p_comment_added = ''["email"]'',
               p_project_invited = ''["email"]'', p_task_due_soon = ''["email"]'' \<rparr>]\<close>
  let ?r1 = "demo_request task_due_soon None"
  let ?r2 = "demo_request task_assigned (Some [email, in_app])"
  note i1 = send_channels_from_request_only [where E="?E" and req="?r1" and w=empty_world and prefs="?p"]
  note i2 = send_channels_from_request_only [where E="?E" and req="?r2" and w=empty_world and prefs="?p"]
  have c1: "req_channels ?r1 = None" and c2: "req_channels ?r2 = Some [email, in_app]"
    by (simp_all add: demo_request_def)
  have d1: "distinct (map (nanoid ?E)
              [ids_drawn empty_world ..< ids_drawn empty_world
                 + length (case req_channels ?r1 of None \<Rightarrow> [in_app] | Some cs \<Rightarrow> cs)])"
    by (simp add: c1 empty_world_def)
  have d2: "distinct (map (nanoid ?E)
              [ids_drawn empty_world ..< ids_drawn empty_world
                 + length (case req_channels ?r2 of None \<Rightarrow> [in_app] | Some cs \<Rightarrow> cs)])"
    by (simp add: c2 empty_world_def demo_env_def upt_rec)
  have f1: "\<forall>k\<in>{ids_drawn empty_world ..< ids_drawn empty_world
                 + length (case req_channels ?r1 of None \<Rightarrow> [in_app] | Some cs \<Rightarrow> cs)}.
              nanoid ?E k \<notin> set (map n_id (notifications empty_world))"
    by (simp add: empty_world_def)
  have f2: "\<forall>k\<in>{ids_drawn empty_world ..< ids_drawn empty_world
                 + length (case req_channels ?r2 of None \<Rightarrow> [in_app] | Some cs \<Rightarrow> cs)}.
              nanoid ?E k \<notin> set (map n_id (notifications empty_world))"
    by (simp add: empty_world_def)
  have j1: "JSON_parse ?E (JSON_stringify ?E (case req_metadata ?r1 of None \<Rightarrow> JObject [] | Some m \<Rightarrow> m)) \<noteq> None"
    by (simp add: demo_defs)
  have j2: "JSON_parse ?E (JSON_stringify ?E (case req_metadata ?r2 of None \<Rightarrow> JObject [] | Some m \<Rightarrow> m)) \<noteq> None"
    by (simp add: demo_defs)
  from i1 d1 f1 j1 obtain ns1 where ns1: "fst (NotificationService_send ?E ?r1 empty_world) = Inr ns1"
    by blast
  from i2 d2 f2 j2 obtain ns2 where ns2: "fst (NotificationService_send ?E ?r2 empty_world) = Inr ns2"
    by blast
  from i1 have same: "fst (NotificationService_send ?E ?r1 (empty_world\<lparr>notification_preferences := ?p\<rparr>))
      = fst (NotificationService_send ?E ?r1 empty_world)"
    by (elim conjE) assumption
  from i1 have "\<forall>ns. req_channels ?r1 = None \<and> fst (NotificationService_send ?E ?r1 empty_world) = Inr ns \<longrightarrow>
         map notif_channel ns = [''in_app'']"
    by (elim conjE) assumption
  with c1 ns1 have a: "map notif_channel ns1 = [''in_app'']" by blast
  from i2 have "\<forall>cs ns. req_channels ?r2 = Some cs \<and> fst (NotificationService_send ?E ?r2 empty_world) = Inr ns \<longrightarrow>
         map notif_channel ns = map channel_text cs"
    by (elim conjE) assumption
  with c2 ns2 have b: "map notif_channel ns2 = map channel_text [email, in_app]" by blast
  show ?thesis
    using same ns1 ns2 a b by simp
qed

section \<open>Properties of the paginated listing\<close>

































section \<open>Properties of the webhook registry\<close>

lemma getById_not_owned:
  assumes "\<forall>r\<in>set (webhooks w). w_id r = wid \<longrightarrow> w_user_id r \<noteq> uid"
  shows "WebhookService_getById E wid uid w = Inr None"
proof -
  have "find (\<lambda>r. w_id r = wid \<and> w_user_id r = uid) (webhooks w) = None"
    using assms by (intro find_none) auto
  then show ?thesis by (simp add: WebhookService_getById_def)
qed

lemma update_not_owned:
  assumes "\<forall>r\<in>set (webhooks w). w_id r = wid \<longrightarrow> w_user_id r \<noteq> uid"
  shows "WebhookService_update E wid uid req w = (Inr None, w)"
  using getById_not_owned [OF assms] by (simp add: WebhookService_update_def)

lemma delete_not_owned:
  assumes "\<forall>r\<in>set (webhooks w). w_id r = wid \<longrightarrow> w_user_id r \<noteq> uid"
  shows "WebhookService_delete wid uid w = (Inr False, w)"
proof -
  have "filter (\<lambda>r. w_id r = wid \<and> w_user_id r = uid) (webhooks w) = []"
    using assms by (auto simp: filter_empty_conv)
  then show ?thesis by (simp add: WebhookService_delete_def)
qed

lemma getDeliveries_not_owned:
  assumes "\<forall>r\<in>set (webhooks w). w_id r = wid \<longrightarrow> w_user_id r \<noteq> uid"
  shows "WebhookService_getDeliveries E wid uid w = Inr []"
  using getById_not_owned [OF assms] by (simp add: WebhookService_getDeliveries_def)

text \<open>
  C3. When every row of \<open>webhooks\<close> with the given id belongs to another user, or
  there is no row with that id, \<open>getById\<close> returns null, \<open>update\<close> returns null
  and changes nothing, \<open>delete\<close> returns false and deletes nothing, and
  \<open>getDeliveries\<close> returns the empty list: the four outcomes do not tell the two cases
  apart, and none of them is an error.
\<close>

theorem webhook_of_other_user_is_not_found:
  "(\<forall>r\<in>set (webhooks w). w_id r = wid \<longrightarrow> w_user_id r \<noteq> uid) \<longrightarrow>
     WebhookService_getById E wid uid w = Inr None
     \<and> WebhookService_update E wid uid req w = (Inr None, w)
     \<and> WebhookService_delete wid uid w = (Inr False, w)
     \<and> WebhookService_getDeliveries E wid uid w = Inr []"
  using getById_not_owned [of w wid uid E] update_not_owned [of w wid uid E req]
    delete_not_owned [of w wid uid] getDeliveries_not_owned [of w wid uid E]
  by blast

theorem webhook_of_other_user_is_not_found_witness:
  "list_ex (\<lambda>r. w_id r = ''wh4'' \<and> w_user_id r = ''owner-user'') (webhooks hook_world)
   \<and> list_ex (\<lambda>r. d_webhook_id r = ''wh4'') (webhook_deliveries hook_world)
   \<and> \<not> list_ex (\<lambda>r. w_id r = ''fake-id'') (webhooks hook_world)
   \<and> WebhookService_getById (demo_env []) ''wh4'' ''other-user'' hook_world = Inr None
   \<and> WebhookService_getById (demo_env []) ''fake-id'' ''other-user'' hook_world = Inr None
   \<and> WebhookService_update (demo_env []) ''wh4'' ''other-user''
        \<lparr>upd_url = Some ''https://evil.com'', upd_secret = None, upd_events = None, upd_active = None\<rparr>
        hook_world = (Inr None, hook_world)
   \<and> WebhookService_update (demo_env []) ''fake-id'' ''other-user''
        \<lparr>upd_url = Some ''https://evil.com'', upd_secret = None, upd_events = None, upd_active = None\<rparr>
        hook_world = (Inr None, hook_world)
   \<and> WebhookService_delete ''wh4'' ''other-user'' hook_world = (Inr False, hook_world)
   \<and> WebhookService_delete ''fake-id'' ''other-user'' hook_world = (Inr False, hook_world)
   \<and> WebhookService_getDeliveries (demo_env []) ''wh4'' ''other-user'' hook_world = Inr []
   \<and> WebhookService_getDeliveries (demo_env []) ''fake-id'' ''other-user'' hook_world = Inr []"
proof -
  let ?req = "\<lparr>upd_url = Some ''https://evil.com'', upd_secret = None, upd_events = None, upd_active = None\<rparr>"
  have other: "\<forall>r\<in>set (webhooks hook_world). w_id r = ''wh4'' \<longrightarrow> w_user_id r \<noteq> ''other-user''"
    by (simp add: hook_world_def empty_world_def demo_hook_def)
  have absent: "\<forall>r\<in>set (webhooks hook_world). w_id r = ''fake-id'' \<longrightarrow> w_user_id r \<noteq> ''other-user''"
    by (simp add: hook_world_def empty_world_def demo_hook_def)
  have facts: "list_ex (\<lambda>r. w_id r = ''wh4'' \<and> w_user_id r = ''owner-user'') (webhooks hook_world)
     \<and> list_ex (\<lambda>r. d_webhook_id r = ''wh4'') (webhook_deliveries hook_world)
     \<and> \<not> list_ex (\<lambda>r. w_id r = ''fake-id'') (webhooks hook_world)"
    by (simp add: hook_world_def empty_world_def demo_hook_def demo_delivery_def)
  show ?thesis
    using facts
      webhook_of_other_user_is_not_found [of hook_world "''wh4''" "''other-user''" "demo_env []" ?req]
      webhook_of_other_user_is_not_found [of hook_world "''fake-id''" "''other-user''" "demo_env []" ?req]
      other absent
    by blast
qed

section \<open>Properties of the retry loop\<close>

lemma attempt_once_eq:
  "attempt_once E did wh payload a v =
     (is_ok (fetch E (length (http_log v)) (delivery_request E wh payload)),
      v\<lparr> slept := (if 0 < a then slept v @ [RETRY_DELAYS ! (a - 1)] else slept v),
         http_log := http_log v @ [delivery_request E wh payload],
         clock_reads := Suc (clock_reads v),
         webhook_deliveries :=
           map (\<lambda>r. if d_id r = did
                     then record_outcome a (fetch E (length (http_log v)) (delivery_request E wh payload))
                            (datetime_now E (clock_reads v)) r
                     else r)
             (webhook_deliveries v) \<rparr>)"
  by (cases "fetch E (length (http_log v)) (delivery_request E wh payload)")
     (auto simp: attempt_once_def delivery_request_def read_clock_def update_delivery_def Let_def)

lemma attempt_loop_done: "attempt_loop E did wh payload 3 v = v"
  by (simp add: maxAttempts_def)

lemma attempt_loop_step:
  "a < 3 \<Longrightarrow>
   attempt_loop E did wh payload a v =
     (if fst (attempt_once E did wh payload a v) then snd (attempt_once E did wh payload a v)
      else attempt_loop E did wh payload (Suc a) (snd (attempt_once E did wh payload a v)))"
  by (subst attempt_loop.simps) (simp add: maxAttempts_def split: prod.splits bool.splits)

lemma after_attempts_frame:
  "http_log (after_attempts E did wh payload k w)
      = http_log w @ replicate k (delivery_request E wh payload)
   \<and> clock_reads (after_attempts E did wh payload k w) = clock_reads w + k
   \<and> ids_drawn (after_attempts E did wh payload k w) = ids_drawn w
   \<and> notifications (after_attempts E did wh payload k w) = notifications w
   \<and> notification_preferences (after_attempts E did wh payload k w) = notification_preferences w
   \<and> webhooks (after_attempts E did wh payload k w) = webhooks w
   \<and> sent_emails (after_attempts E did wh payload k w) = sent_emails w
   \<and> console (after_attempts E did wh payload k w) = console w"
proof (induction k)
  case 0
  then show ?case by simp
next
  case (Suc k)
  then show ?case by (simp add: attempt_once_eq replicate_append_same)
qed

lemma record_outcome_same:
  "d_id (record_outcome a out t r) = d_id r
   \<and> d_webhook_id (record_outcome a out t r) = d_webhook_id r
   \<and> d_event_type (record_outcome a out t r) = d_event_type r
   \<and> d_payload (record_outcome a out t r) = d_payload r
   \<and> d_created_at (record_outcome a out t r) = d_created_at r"
  by (cases out) (simp_all add: record_response_def record_exception_def)

lemma record_outcome_ledger:
  "d_attempts (record_outcome a out t r) = int a + 1
   \<and> d_last_attempt_at (record_outcome a out t r) = Some t
   \<and> d_status (record_outcome a out t r) = status_after a out"
  by (cases out) (simp_all add: record_response_def record_exception_def status_after_def)

lemma record_outcome_code:
  "d_response_code (record_outcome a (Response s) t r) = Some s"
  "d_response_code (record_outcome a NetworkFailure t r) = d_response_code r"
  by (simp_all add: record_response_def record_exception_def)

lemma after_attempts_same:
  "list_all2 (same_delivery did) (webhook_deliveries w)
     (webhook_deliveries (after_attempts E did wh payload k w))"
proof (induction k)
  case 0
  then show ?case by (simp add: list_all2_refl same_delivery_def)
next
  case (Suc k)
  let ?v = "after_attempts E did wh payload k w"
  let ?f = "record_outcome k (fetch E (length (http_log ?v)) (delivery_request E wh payload))
              (datetime_now E (clock_reads ?v))"
  have step: "webhook_deliveries (after_attempts E did wh payload (Suc k) w)
      = map (\<lambda>r. if d_id r = did then ?f r else r) (webhook_deliveries ?v)"
    by (simp add: attempt_once_eq)
  have "list_all2 (same_delivery did) (webhook_deliveries w)
          (map (\<lambda>r. if d_id r = did then ?f r else r) (webhook_deliveries ?v))"
    unfolding list_all2_map2
    by (rule list_all2_mono [OF Suc.IH]) (auto simp: same_delivery_def record_outcome_same)
  then show ?case unfolding step .
qed

lemma after_attempts_ledger:
  "list_all2
     (ledger_row did (int k + 1)
        (status_after k (fetch E (length (http_log w) + k) (delivery_request E wh payload)))
        (datetime_now E (clock_reads w + k)))
     (webhook_deliveries w)
     (webhook_deliveries (after_attempts E did wh payload (Suc k) w))"
proof -
  let ?v = "after_attempts E did wh payload k w"
  let ?out = "fetch E (length (http_log w) + k) (delivery_request E wh payload)"
  let ?t = "datetime_now E (clock_reads w + k)"
  have len: "length (http_log ?v) = length (http_log w) + k"
    and clk: "clock_reads ?v = clock_reads w + k"
    using after_attempts_frame [of E did wh payload k w] by simp_all
  have step: "webhook_deliveries (after_attempts E did wh payload (Suc k) w)
      = map (\<lambda>r. if d_id r = did then record_outcome k ?out ?t r else r) (webhook_deliveries ?v)"
    by (simp add: attempt_once_eq len clk)
  have "list_all2 (ledger_row did (int k + 1) (status_after k ?out) ?t) (webhook_deliveries w)
          (map (\<lambda>r. if d_id r = did then record_outcome k ?out ?t r else r) (webhook_deliveries ?v))"
    unfolding list_all2_map2
    by (rule list_all2_mono [OF after_attempts_same [of did w E wh payload k]])
       (auto simp: same_delivery_def ledger_row_def record_outcome_same record_outcome_ledger)
  then show ?thesis unfolding step .
qed

lemma after_attempts_code:
  assumes "fetch E (length (http_log w) + k) (delivery_request E wh payload) = Response s"
  shows "list_all2 (\<lambda>r r'. d_id r = did \<longrightarrow> d_response_code r' = Some s)
     (webhook_deliveries w)
     (webhook_deliveries (after_attempts E did wh payload (Suc k) w))"
proof -
  let ?v = "after_attempts E did wh payload k w"
  let ?t = "datetime_now E (clock_reads w + k)"
  have len: "length (http_log ?v) = length (http_log w) + k"
    and clk: "clock_reads ?v = clock_reads w + k"
    using after_attempts_frame [of E did wh payload k w] by simp_all
  have step: "webhook_deliveries (after_attempts E did wh payload (Suc k) w)
      = map (\<lambda>r. if d_id r = did then record_outcome k (Response s) ?t r else r) (webhook_deliveries ?v)"
    by (simp add: attempt_once_eq len clk assms)
  have "list_all2 (\<lambda>r r'. d_id r = did \<longrightarrow> d_response_code r' = Some s) (webhook_deliveries w)
          (map (\<lambda>r. if d_id r = did then record_outcome k (Response s) ?t r else r) (webhook_deliveries ?v))"
    unfolding list_all2_map2
    by (rule list_all2_mono [OF after_attempts_same [of did w E wh payload k]])
       (auto simp: same_delivery_def record_response_def)
  then show ?thesis unfolding step .
qed

lemma attempt_loop_after:
  assumes "k < 3"
  shows "attempt_loop E did wh payload k (after_attempts E did wh payload k w) =
     (if is_ok (fetch E (length (http_log w) + k) (delivery_request E wh payload))
      then after_attempts E did wh payload (Suc k) w
      else attempt_loop E did wh payload (Suc k) (after_attempts E did wh payload (Suc k) w))"
proof -
  have len: "length (http_log (after_attempts E did wh payload k w)) = length (http_log w) + k"
    using after_attempts_frame [of E did wh payload k w] by simp
  have "fst (attempt_once E did wh payload k (after_attempts E did wh payload k w))
      = is_ok (fetch E (length (http_log w) + k) (delivery_request E wh payload))"
    by (simp add: attempt_once_eq len)
  then show ?thesis
    using attempt_loop_step [OF assms, of E did wh payload "after_attempts E did wh payload k w"]
    by simp
qed

lemma attemptDelivery_cases:
  "WebhookService_attemptDelivery E did wh payload w =
     (if is_ok (fetch E (length (http_log w)) (delivery_request E wh payload))
      then after_attempts E did wh payload 1 w
      else if is_ok (fetch E (length (http_log w) + 1) (delivery_request E wh payload))
      then after_attempts E did wh payload 2 w
      else after_attempts E did wh payload 3 w)"
proof -
  have a0: "attempt_loop E did wh payload 0 w =
     (if is_ok (fetch E (length (http_log w)) (delivery_request E wh payload))
      then after_attempts E did wh payload 1 w
      else attempt_loop E did wh payload 1 (after_attempts E did wh payload 1 w))"
    using attempt_loop_after [of 0 E did wh payload w] by simp
  have a1: "attempt_loop E did wh payload 1 (after_attempts E did wh payload 1 w) =
     (if is_ok (fetch E (length (http_log w) + 1) (delivery_request E wh payload))
      then after_attempts E did wh payload 2 w
      else attempt_loop E did wh payload 2 (after_attempts E did wh payload 2 w))"
    using attempt_loop_after [of 1 E did wh payload w] by (simp add: numeral_2_eq_2)
  have a2: "attempt_loop E did wh payload 2 (after_attempts E did wh payload 2 w) =
     after_attempts E did wh payload 3 w"
    using attempt_loop_after [of 2 E did wh payload w]
      attempt_loop_done [of E did wh payload "after_attempts E did wh payload 3 w"]
    by (simp add: numeral_3_eq_3)
  show ?thesis
    unfolding WebhookService_attemptDelivery_def a0 a1 a2 by simp
qed

lemma attemptDelivery_first_ok:
  assumes "k < 3"
    and "is_ok (fetch E (length (http_log w) + k) (delivery_request E wh payload))"
    and "\<forall>j<k. \<not> is_ok (fetch E (length (http_log w) + j) (delivery_request E wh payload))"
  shows "WebhookService_attemptDelivery E did wh payload w = after_attempts E did wh payload (Suc k) w"
proof -
  from assms(1) consider "k = 0" | "k = 1" | "k = 2" by linarith
  then show ?thesis
  proof cases
    case 1
    with assms(2) show ?thesis by (simp add: attemptDelivery_cases)
  next
    case 2
    with assms(3) have "\<not> is_ok (fetch E (length (http_log w) + 0) (delivery_request E wh payload))"
      by blast
    with 2 assms(2) show ?thesis by (simp add: attemptDelivery_cases numeral_2_eq_2)
  next
    case 3
    have "\<not> is_ok (fetch E (length (http_log w) + 0) (delivery_request E wh payload))"
      using assms(3) [rule_format, of 0] 3 by simp
    moreover have "\<not> is_ok (fetch E (length (http_log w) + 1) (delivery_request E wh payload))"
      using assms(3) [rule_format, of 1] 3 by simp
    ultimately show ?thesis using 3 by (simp add: attemptDelivery_cases numeral_3_eq_3)
  qed
qed

lemma attemptDelivery_all_fail:
  assumes "\<forall>j<3. \<not> is_ok (fetch E (length (http_log w) + j) (delivery_request E wh payload))"
  shows "WebhookService_attemptDelivery E did wh payload w = after_attempts E did wh payload 3 w"
proof -
  have "\<not> is_ok (fetch E (length (http_log w) + 0) (delivery_request E wh payload))"
    using assms [rule_format, of 0] by simp
  moreover have "\<not> is_ok (fetch E (length (http_log w) + 1) (delivery_request E wh payload))"
    using assms [rule_format, of 1] by simp
  ultimately show ?thesis by (simp add: attemptDelivery_cases)
qed

lemma attemptDelivery_some_attempts:
  "\<exists>m. 1 \<le> m \<and> m \<le> 3
     \<and> WebhookService_attemptDelivery E did wh payload w = after_attempts E did wh payload m w"
proof -
  have "WebhookService_attemptDelivery E did wh payload w = after_attempts E did wh payload 1 w
      \<or> WebhookService_attemptDelivery E did wh payload w = after_attempts E did wh payload 2 w
      \<or> WebhookService_attemptDelivery E did wh payload w = after_attempts E did wh payload 3 w"
    by (simp add: attemptDelivery_cases)
  then consider
      (a) "WebhookService_attemptDelivery E did wh payload w = after_attempts E did wh payload 1 w"
    | (b) "WebhookService_attemptDelivery E did wh payload w = after_attempts E did wh payload 2 w"
    | (c) "WebhookService_attemptDelivery E did wh payload w = after_attempts E did wh payload 3 w"
    by blast
  then show ?thesis
  proof cases
    case a
    then show ?thesis by (intro exI [of _ 1]) simp
  next
    case b
    then show ?thesis by (intro exI [of _ 2]) simp
  next
    case c
    then show ?thesis by (intro exI [of _ 3]) simp
  qed
qed

lemma attempt_once_ledger:
  "http_log (snd (attempt_once E did wh payload a v)) = http_log v @ [delivery_request E wh payload]
   \<and> list_all2
       (ledger_row did (int a + 1)
          (status_after a (fetch E (length (http_log v)) (delivery_request E wh payload)))
          (datetime_now E (clock_reads v)))
       (webhook_deliveries v) (webhook_deliveries (snd (attempt_once E did wh payload a v)))"
proof -
  let ?f = "record_outcome a (fetch E (length (http_log v)) (delivery_request E wh payload))
              (datetime_now E (clock_reads v))"
  have "list_all2
       (ledger_row did (int a + 1)
          (status_after a (fetch E (length (http_log v)) (delivery_request E wh payload)))
          (datetime_now E (clock_reads v)))
       (webhook_deliveries v) (map (\<lambda>r. if d_id r = did then ?f r else r) (webhook_deliveries v))"
    unfolding list_all2_map2
    by (rule list_all2_refl) (simp add: ledger_row_def record_outcome_same record_outcome_ledger)
  then show ?thesis by (simp add: attempt_once_eq)
qed

text \<open>
  C2. \<open>attemptDelivery\<close> sends between one and three POST requests, all the same.
  When the first 2xx response comes at attempt \<open>k + 1\<close> (the earlier ones failing by
  status or by exception), that is the last request: the rows of the delivery have
  status delivered, \<open>k + 1\<close> attempts, the response code and the time of that attempt.
  When all three fail there are exactly three requests, status failed, 3 attempts. Every
  single attempt sends one request and writes its number and its time to the rows of
  the delivery, leaving what identifies them and every other row as it was; no row is
  added or removed.
\<close>

theorem attemptDelivery_bounded_retries:
  "(\<exists>m. 1 \<le> m \<and> m \<le> 3
      \<and> http_log (WebhookService_attemptDelivery E did wh payload w)
          = http_log w @ replicate m (delivery_request E wh payload))
   \<and> (\<forall>k s. k < 3
          \<and> fetch E (length (http_log w) + k) (delivery_request E wh payload) = Response s
          \<and> 200 \<le> s \<and> s \<le> 299
          \<and> (\<forall>j<k. \<not> is_ok (fetch E (length (http_log w) + j) (delivery_request E wh payload)))
        \<longrightarrow>
          http_log (WebhookService_attemptDelivery E did wh payload w)
            = http_log w @ replicate (Suc k) (delivery_request E wh payload)
          \<and> list_all2 (ledger_row did (int k + 1) delivered (datetime_now E (clock_reads w + k)))
              (webhook_deliveries w)
              (webhook_deliveries (WebhookService_attemptDelivery E did wh payload w))
          \<and> list_all2 (\<lambda>r r'. d_id r = did \<longrightarrow> d_response_code r' = Some s)
              (webhook_deliveries w)
              (webhook_deliveries (WebhookService_attemptDelivery E did wh payload w)))
   \<and> ((\<forall>j<3. \<not> is_ok (fetch E (length (http_log w) + j) (delivery_request E wh payload)))
        \<longrightarrow>
          http_log (WebhookService_attemptDelivery E did wh payload w)
            = http_log w @ replicate 3 (delivery_request E wh payload)
          \<and> list_all2 (ledger_row did 3 failed (datetime_now E (clock_reads w + 2)))
              (webhook_deliveries w)
              (webhook_deliveries (WebhookService_attemptDelivery E did wh payload w)))
   \<and> (\<forall>a v. http_log (snd (attempt_once E did wh payload a v))
                = http_log v @ [delivery_request E wh payload]
          \<and> list_all2
              (ledger_row did (int a + 1)
                 (status_after a (fetch E (length (http_log v)) (delivery_request E wh payload)))
                 (datetime_now E (clock_reads v)))
              (webhook_deliveries v) (webhook_deliveries (snd (attempt_once E did wh payload a v))))"
proof -
  let ?rq = "delivery_request E wh payload"
  let ?w' = "WebhookService_attemptDelivery E did wh payload w"
  have bound: "\<exists>m. 1 \<le> m \<and> m \<le> 3 \<and> http_log ?w' = http_log w @ replicate m ?rq"
  proof -
    from attemptDelivery_some_attempts [of E did wh payload w] obtain m where
      m: "1 \<le> m" "m \<le> 3" "?w' = after_attempts E did wh payload m w" by blast
    have "http_log ?w' = http_log w @ replicate m ?rq"
      unfolding m(3) using after_attempts_frame [of E did wh payload m w] by simp
    with m(1,2) show ?thesis by blast
  qed
  have success: "http_log ?w' = http_log w @ replicate (Suc k) ?rq
          \<and> list_all2 (ledger_row did (int k + 1) delivered (datetime_now E (clock_reads w + k)))
              (webhook_deliveries w) (webhook_deliveries ?w')
          \<and> list_all2 (\<lambda>r r'. d_id r = did \<longrightarrow> d_response_code r' = Some s)
              (webhook_deliveries w) (webhook_deliveries ?w')"
    if h: "k < 3 \<and> fetch E (length (http_log w) + k) ?rq = Response s \<and> 200 \<le> s \<and> s \<le> 299
          \<and> (\<forall>j<k. \<not> is_ok (fetch E (length (http_log w) + j) ?rq))" for k s
  proof -
    from h have out: "fetch E (length (http_log w) + k) ?rq = Response s" by simp
    from h have ok: "is_ok (fetch E (length (http_log w) + k) ?rq)" by simp
    from h have eq: "?w' = after_attempts E did wh payload (Suc k) w"
      using attemptDelivery_first_ok [of k E w wh payload did] ok by blast
    have st: "status_after k (fetch E (length (http_log w) + k) ?rq) = delivered"
      using ok by (simp add: status_after_def)
    show ?thesis
      unfolding eq
      using after_attempts_frame [of E did wh payload "Suc k" w]
        after_attempts_ledger [of did k E w wh payload]
        after_attempts_code [OF out, of did]
      by (simp add: st)
  qed
  have failure: "http_log ?w' = http_log w @ replicate 3 ?rq
          \<and> list_all2 (ledger_row did 3 failed (datetime_now E (clock_reads w + 2)))
              (webhook_deliveries w) (webhook_deliveries ?w')"
    if h: "\<forall>j<3. \<not> is_ok (fetch E (length (http_log w) + j) ?rq)"
  proof -
    have eq: "?w' = after_attempts E did wh payload 3 w"
      using attemptDelivery_all_fail [OF h] .
    have "\<not> is_ok (fetch E (length (http_log w) + 2) ?rq)"
      using h [rule_format, of 2] by simp
    then have st: "status_after 2 (fetch E (length (http_log w) + 2) ?rq) = failed"
      by (simp add: status_after_def maxAttempts_def)
    have three: "Suc 2 = (3::nat)" by simp
    have "list_all2
        (ledger_row did (int 2 + 1) (status_after 2 (fetch E (length (http_log w) + 2) ?rq))
           (datetime_now E (clock_reads w + 2)))
        (webhook_deliveries w) (webhook_deliveries (after_attempts E did wh payload (Suc 2) w))"
      by (rule after_attempts_ledger)
    then have led: "list_all2 (ledger_row did 3 failed (datetime_now E (clock_reads w + 2)))
        (webhook_deliveries w) (webhook_deliveries (after_attempts E did wh payload 3 w))"
      unfolding st three by simp
    have log: "http_log (after_attempts E did wh payload 3 w) = http_log w @ replicate 3 ?rq"
      using after_attempts_frame [of E did wh payload 3 w] by blast
    show ?thesis
      unfolding eq using led log by blast
  qed
  show ?thesis
    using bound success failure attempt_once_ledger [of E did wh payload]
    by blast
qed

lemma pending_deliveries:
  "webhook_deliveries pending_world
     = [demo_delivery, new_delivery ''d1'' ''wh1'' ''task_assigned'' ''{}'' ''2024-01-01 00:00:00'']"
  and pending_log: "http_log pending_world = []"
  by (simp_all add: pending_world_def hook_world_def empty_world_def)

lemma ledger_two_rows:
  assumes "list_all2 (ledger_row ''d1'' n st t)
             [demo_delivery, new_delivery ''d1'' ''wh1'' ''task_assigned'' ''{}'' ''2024-01-01 00:00:00''] rows"
  shows "map (\<lambda>r. (d_id r, d_status r, d_attempts r)) rows
           = [(''d0'', delivered, 1), (''d1'', st, n)]"
proof -
  from assms obtain x y where rows: "rows = [x, y]"
    and x: "ledger_row ''d1'' n st t demo_delivery x"
    and y: "ledger_row ''d1'' n st t
              (new_delivery ''d1'' ''wh1'' ''task_assigned'' ''{}'' ''2024-01-01 00:00:00'') y"
    by (auto simp: list_all2_Cons1)
  from x have "x = demo_delivery" by (simp add: ledger_row_def demo_delivery_def)
  moreover from y have "d_id y = ''d1'' \<and> d_status y = st \<and> d_attempts y = n"
    by (simp add: ledger_row_def new_delivery_def)
  ultimately show ?thesis using rows by (simp add: demo_delivery_def)
qed

theorem attemptDelivery_bounded_retries_witness:
  "length (http_log (WebhookService_attemptDelivery
       (demo_env [Response 500, NetworkFailure, Response 200]) ''d1'' demo_config ''{}'' pending_world)) = 3
   \<and> map (\<lambda>r. (d_id r, d_status r, d_attempts r)) (webhook_deliveries (WebhookService_attemptDelivery
       (demo_env [Response 500, NetworkFailure, Response 200]) ''d1'' demo_config ''{}'' pending_world))
       = [(''d0'', delivered, 1), (''d1'', delivered, 3)]
   \<and> length (http_log (WebhookService_attemptDelivery
       (demo_env [Response 500, Response 503, NetworkFailure]) ''d1'' demo_config ''{}'' pending_world)) = 3
   \<and> map (\<lambda>r. (d_id r, d_status r, d_attempts r)) (webhook_deliveries (WebhookService_attemptDelivery
       (demo_env [Response 500, Response 503, NetworkFailure]) ''d1'' demo_config ''{}'' pending_world))
       = [(''d0'', delivered, 1), (''d1'', failed, 3)]
   \<and> length (http_log (WebhookService_attemptDelivery
       (demo_env [Response 204]) ''d1'' demo_config ''{}'' pending_world)) = 1
   \<and> map (\<lambda>r. (d_id r, d_status r, d_attempts r)) (webhook_deliveries (WebhookService_attemptDelivery
       (demo_env [Response 204]) ''d1'' demo_config ''{}'' pending_world))
       = [(''d0'', delivered, 1), (''d1'', delivered, 1)]"
proof -
  let ?A = "demo_env [Response 500, NetworkFailure, Response 200]"
  let ?B = "demo_env [Response 500, Response 503, NetworkFailure]"
  let ?C = "demo_env [Response 204]"
  let ?run = "\<lambda>E. WebhookService_attemptDelivery E ''d1'' demo_config ''{}'' pending_world"
  note iA = attemptDelivery_bounded_retries [of ?A "''d1''" demo_config "''{}''" pending_world]
  note iB = attemptDelivery_bounded_retries [of ?B "''d1''" demo_config "''{}''" pending_world]
  note iC = attemptDelivery_bounded_retries [of ?C "''d1''" demo_config "''{}''" pending_world]
  have hA: "(2::nat) < 3
      \<and> fetch ?A (length (http_log pending_world) + 2) (delivery_request ?A demo_config ''{}'') = Response 200
      \<and> (200::int) \<le> 200 \<and> (200::int) \<le> 299
      \<and> (\<forall>j<2. \<not> is_ok (fetch ?A (length (http_log pending_world) + j) (delivery_request ?A demo_config ''{}'')))"
    by (simp add: pending_log demo_env_def less_Suc_eq numeral_2_eq_2)
  have hB: "\<forall>j<3. \<not> is_ok (fetch ?B (length (http_log pending_world) + j) (delivery_request ?B demo_config ''{}''))"
    by (simp add: pending_log demo_env_def less_Suc_eq numeral_3_eq_3)
  have hC: "(0::nat) < 3
      \<and> fetch ?C (length (http_log pending_world) + 0) (delivery_request ?C demo_config ''{}'') = Response 204
      \<and> (200::int) \<le> 204 \<and> (204::int) \<le> 299
      \<and> (\<forall>j<0. \<not> is_ok (fetch ?C (length (http_log pending_world) + j) (delivery_request ?C demo_config ''{}'')))"
    by (simp add: pending_log demo_env_def)
  from iA hA have rA: "http_log (?run ?A)
            = http_log pending_world @ replicate (Suc 2) (delivery_request ?A demo_config ''{}'')
          \<and> list_all2 (ledger_row ''d1'' (int 2 + 1) delivered (datetime_now ?A (clock_reads pending_world + 2)))
              (webhook_deliveries pending_world) (webhook_deliveries (?run ?A))"
    by blast
  from iB hB have rB: "http_log (?run ?B)
            = http_log pending_world @ replicate 3 (delivery_request ?B demo_config ''{}'')
          \<and> list_all2 (ledger_row ''d1'' 3 failed (datetime_now ?B (clock_reads pending_world + 2)))
              (webhook_deliveries pending_world) (webhook_deliveries (?run ?B))"
    by blast
  from iC hC have rC: "http_log (?run ?C)
            = http_log pending_world @ replicate (Suc 0) (delivery_request ?C demo_config ''{}'')
          \<and> list_all2 (ledger_row ''d1'' (int 0 + 1) delivered (datetime_now ?C (clock_reads pending_world + 0)))
              (webhook_deliveries pending_world) (webhook_deliveries (?run ?C))"
    by blast
  have a: "length (http_log (?run ?A)) = 3" using rA by (simp add: pending_log)
  have b: "length (http_log (?run ?B)) = 3" using rB by (simp add: pending_log)
  have c: "length (http_log (?run ?C)) = 1" using rC by (simp add: pending_log)
  have a': "map (\<lambda>r. (d_id r, d_status r, d_attempts r)) (webhook_deliveries (?run ?A))
       = [(''d0'', delivered, 1), (''d1'', delivered, 3)]"
  proof -
    from rA have "list_all2 (ledger_row ''d1'' 3 delivered (datetime_now ?A (clock_reads pending_world + 2)))
        [demo_delivery, new_delivery ''d1'' ''wh1'' ''task_assigned'' ''{}'' ''2024-01-01 00:00:00'']
        (webhook_deliveries (?run ?A))"
      unfolding pending_deliveries by simp
    then show ?thesis by (rule ledger_two_rows)
  qed
  have b': "map (\<lambda>r. (d_id r, d_status r, d_attempts r)) (webhook_deliveries (?run ?B))
       = [(''d0'', delivered, 1), (''d1'', failed, 3)]"
  proof -
    from rB have "list_all2 (ledger_row ''d1'' 3 failed (datetime_now ?B (clock_reads pending_world + 2)))
        [demo_delivery, new_delivery ''d1'' ''wh1'' ''task_assigned'' ''{}'' ''2024-01-01 00:00:00'']
        (webhook_deliveries (?run ?B))"
      unfolding pending_deliveries by simp
    then show ?thesis by (rule ledger_two_rows)
  qed
  have c': "map (\<lambda>r. (d_id r, d_status r, d_attempts r)) (webhook_deliveries (?run ?C))
       = [(''d0'', delivered, 1), (''d1'', delivered, 1)]"
  proof -
    from rC have "list_all2 (ledger_row ''d1'' 1 delivered (datetime_now ?C (clock_reads pending_world + 0)))
        [demo_delivery, new_delivery ''d1'' ''wh1'' ''task_assigned'' ''{}'' ''2024-01-01 00:00:00'']
        (webhook_deliveries (?run ?C))"
      unfolding pending_deliveries by simp
    then show ?thesis by (rule ledger_two_rows)
  qed
  show ?thesis using a a' b b' c c' by simp
qed

section \<open>Properties of the delivery pass\<close>

lemma attemptDelivery_outcome:
  "\<exists>m st t. 1 \<le> m \<and> m \<le> 3 \<and> (st = delivered \<or> st = failed)
     \<and> WebhookService_attemptDelivery E did wh payload w = after_attempts E did wh payload m w
     \<and> list_all2 (ledger_row did (int m) st t) (webhook_deliveries w)
           (webhook_deliveries (WebhookService_attemptDelivery E did wh payload w))"
proof -
  let ?o = "\<lambda>k. fetch E (length (http_log w) + k) (delivery_request E wh payload)"
  let ?t = "\<lambda>k. datetime_now E (clock_reads w + k)"
  let ?w' = "WebhookService_attemptDelivery E did wh payload w"
  have led: "list_all2 (ledger_row did (int (Suc k)) (status_after k (?o k)) (?t k))
      (webhook_deliveries w) (webhook_deliveries (after_attempts E did wh payload (Suc k) w))" for k
    using after_attempts_ledger [of did k E w wh payload] by (simp add: add.commute)
  consider (first) "is_ok (?o 0)" | (second) "\<not> is_ok (?o 0)" "is_ok (?o 1)"
    | (third) "\<not> is_ok (?o 0)" "\<not> is_ok (?o 1)"
    by blast
  then show ?thesis
  proof cases
    case first
    then have eq: "?w' = after_attempts E did wh payload (Suc 0) w"
      by (simp add: attemptDelivery_cases)
    have st: "status_after 0 (?o 0) = delivered" using first by (simp add: status_after_def)
    show ?thesis
      apply (rule exI [of _ "Suc 0"], rule exI [of _ delivered], rule exI [of _ "?t 0"])
      using eq led [of 0] st by simp
  next
    case second
    then have eq: "?w' = after_attempts E did wh payload (Suc 1) w"
      by (simp add: attemptDelivery_cases numeral_2_eq_2)
    have st: "status_after 1 (?o 1) = delivered" using second by (simp add: status_after_def)
    show ?thesis
      apply (rule exI [of _ "Suc 1"], rule exI [of _ delivered], rule exI [of _ "?t 1"])
      using eq led [of 1] st by simp
  next
    case third
    then have eq: "?w' = after_attempts E did wh payload (Suc 2) w"
      by (simp add: attemptDelivery_cases numeral_3_eq_3)
    have st: "status_after 2 (?o 2) = delivered \<or> status_after 2 (?o 2) = failed"
      by (simp add: status_after_def maxAttempts_def)
    show ?thesis
      apply (rule exI [of _ "Suc 2"], rule exI [of _ "status_after 2 (?o 2)"], rule exI [of _ "?t 2"])
      using eq led [of 2] st by simp
  qed
qed

lemma ledger_of_new_row:
  assumes "list_all2 (ledger_row did n st t) (xs @ [nd]) ys"
    and "\<forall>x\<in>set xs. d_id x \<noteq> did"
  shows "\<exists>f. ys = xs @ [f] \<and> ledger_row did n st t nd f"
proof -
  from assms(1) obtain us vs where ys: "ys = us @ vs"
    and us: "list_all2 (ledger_row did n st t) xs us"
    and vs: "list_all2 (ledger_row did n st t) [nd] vs"
    by (auto simp: list_all2_append1)
  from vs obtain f where f: "vs = [f]" "ledger_row did n st t nd f"
    by (auto simp: list_all2_Cons1)
  have "list_all2 (\<lambda>x y. y = x) xs us"
    using us assms(2)
    by (induction xs us rule: list_all2_induct) (auto simp: ledger_row_def)
  then have "us = xs" by (induction xs us rule: list_all2_induct) auto
  with ys f show ?thesis by blast
qed

lemma rowToWebhook_array:
  assumes "events_of E r = Some xs"
  shows "rowToWebhook E r
     = Inr \<lparr> wh_id = w_id r, wh_userId = w_user_id r, wh_url = w_url r, wh_secret = w_secret r,
             wh_events = JArray xs, wh_active = (w_active r = 1), wh_createdAt = w_created_at r \<rparr>"
  using assms
  by (auto simp: events_of_def rowToWebhook_def split: option.splits json.splits)

lemma deliver_loop_ok:
  assumes "\<forall>r\<in>set rows. events_of E r \<noteq> None"
    and "distinct (map (nanoid E)
           [ids_drawn w ..< ids_drawn w + length (filter (subscribed E ev) rows)])"
    and "\<forall>k\<in>{ids_drawn w ..< ids_drawn w + length (filter (subscribed E ev) rows)}.
            nanoid E k \<notin> set (map d_id (webhook_deliveries w))"
    and "\<forall>r\<in>set rows. w_id r \<in> set (map w_id (webhooks w))"
  shows "\<exists>w' finals ms handed. deliver_loop E ev payload rows w = (Inr (), w', handed)
     \<and> webhook_deliveries w' = webhook_deliveries w @ finals
     \<and> list_all2 (delivery_settled E ev payload) (filter (subscribed E ev) rows) finals
     \<and> length ms = length (filter (subscribed E ev) rows)
     \<and> list_all (\<lambda>m. 1 \<le> m \<and> m \<le> 3) ms
     \<and> http_log w' = http_log w
           @ concat (map2 (\<lambda>m r. replicate m (request_for E payload r)) ms
                       (filter (subscribed E ev) rows))
     \<and> length handed = length (filter (subscribed E ev) rows)
     \<and> list_all2 (\<lambda>r cf. delivery_created E ev payload w' r (fst cf) (snd cf))
          (filter (subscribed E ev) rows) (zip handed finals)
     \<and> webhooks w' = webhooks w \<and> notifications w' = notifications w
     \<and> sent_emails w' = sent_emails w
     \<and> notification_preferences w' = notification_preferences w"
  using assms
proof (induction rows arbitrary: w)
  case Nil
  show ?case
    by (rule exI [of _ w], rule exI [of _ "[]"], rule exI [of _ "[]"], rule exI [of _ "[]"]) simp
next
  case (Cons r rest)
  from Cons.prems(1) obtain xs where xs: "events_of E r = Some xs" by auto
  let ?wh = "\<lparr> wh_id = w_id r, wh_userId = w_user_id r, wh_url = w_url r, wh_secret = w_secret r,
             wh_events = JArray xs, wh_active = (w_active r = 1), wh_createdAt = w_created_at r \<rparr>"
  have conf: "rowToWebhook E r = Inr ?wh" by (rule rowToWebhook_array [OF xs])
  have inc: "(JString (type_text ev) \<in> set xs) = subscribed E ev r"
    by (simp add: subscribed_def xs)
  show ?case
  proof (cases "subscribed E ev r")
    case False
    then have loop: "deliver_loop E ev payload (r # rest) w = deliver_loop E ev payload rest w"
      by (simp add: conf inc)
    have sel: "filter (subscribed E ev) (r # rest) = filter (subscribed E ev) rest"
      using False by simp
    have "\<exists>w' finals ms handed. deliver_loop E ev payload rest w = (Inr (), w', handed)
       \<and> webhook_deliveries w' = webhook_deliveries w @ finals
       \<and> list_all2 (delivery_settled E ev payload) (filter (subscribed E ev) rest) finals
       \<and> length ms = length (filter (subscribed E ev) rest)
       \<and> list_all (\<lambda>m. 1 \<le> m \<and> m \<le> 3) ms
       \<and> http_log w' = http_log w
             @ concat (map2 (\<lambda>m r. replicate m (request_for E payload r)) ms
                         (filter (subscribed E ev) rest))
       \<and> length handed = length (filter (subscribed E ev) rest)
       \<and> list_all2 (\<lambda>r cf. delivery_created E ev payload w' r (fst cf) (snd cf))
            (filter (subscribed E ev) rest) (zip handed finals)
       \<and> webhooks w' = webhooks w \<and> notifications w' = notifications w
       \<and> sent_emails w' = sent_emails w
       \<and> notification_preferences w' = notification_preferences w"
    proof (rule Cons.IH)
      show "\<forall>r\<in>set rest. events_of E r \<noteq> None" using Cons.prems(1) by simp
      show "distinct (map (nanoid E)
           [ids_drawn w ..< ids_drawn w + length (filter (subscribed E ev) rest)])"
        using Cons.prems(2) unfolding sel .
      show "\<forall>k\<in>{ids_drawn w ..< ids_drawn w + length (filter (subscribed E ev) rest)}.
            nanoid E k \<notin> set (map d_id (webhook_deliveries w))"
        using Cons.prems(3) unfolding sel .
      show "\<forall>r\<in>set rest. w_id r \<in> set (map w_id (webhooks w))"
        using Cons.prems(4) by simp
    qed
    then show ?thesis unfolding loop sel .
  next
    case True
    let ?sel = "filter (subscribed E ev) rest"
    let ?i = "nanoid E (ids_drawn w)"
    let ?p = "JSON_stringify E payload"
    let ?nd = "new_delivery ?i (w_id r) (type_text ev) ?p (datetime_now E (clock_reads w))"
    let ?w2 = "w\<lparr>ids_drawn := Suc (ids_drawn w), clock_reads := Suc (clock_reads w)\<rparr>"
    let ?w3 = "?w2\<lparr>webhook_deliveries := webhook_deliveries w @ [?nd]\<rparr>"
    let ?w4 = "WebhookService_attemptDelivery E ?i ?wh ?p ?w3"
    have sel: "filter (subscribed E ev) (r # rest) = r # ?sel" using True by simp
    have upt: "[ids_drawn w ..< ids_drawn w + length (r # ?sel)]
        = ids_drawn w # [Suc (ids_drawn w) ..< Suc (ids_drawn w) + length ?sel]"
      by (subst upt_rec) simp
    have dist: "distinct (map (nanoid E) (ids_drawn w # [Suc (ids_drawn w) ..< Suc (ids_drawn w) + length ?sel]))"
      using Cons.prems(2) unfolding sel upt .
    have fresh: "\<forall>k\<in>{ids_drawn w ..< ids_drawn w + length (r # ?sel)}.
            nanoid E k \<notin> set (map d_id (webhook_deliveries w))"
      using Cons.prems(3) unfolding sel .
    have i_new: "?i \<notin> set (map d_id (webhook_deliveries w))"
      using fresh by simp
    have i_fk: "w_id r \<in> set (map w_id (webhooks w))"
      using Cons.prems(4) by simp
    have ins: "insert_delivery ?nd ?w2 = Inr ?w3"
      using i_new i_fk by (simp add: insert_delivery_def new_delivery_def)
    have loop: "deliver_loop E ev payload (r # rest) w
        = (case deliver_loop E ev payload rest ?w4 of
             (outcome, w', handed) \<Rightarrow> (outcome, w', ?w3 # handed))"
      using True ins by (simp add: conf inc draw_id_def read_clock_def Let_def)
    from attemptDelivery_outcome [of E ?i ?wh ?p ?w3] obtain m st t where
      m: "1 \<le> m" "m \<le> 3" "st = delivered \<or> st = failed"
         "?w4 = after_attempts E ?i ?wh ?p m ?w3"
         "list_all2 (ledger_row ?i (int m) st t) (webhook_deliveries ?w3) (webhook_deliveries ?w4)"
      by blast
    have old_ids: "\<forall>x\<in>set (webhook_deliveries w). d_id x \<noteq> ?i"
      using i_new by force
    from m(5) have "list_all2 (ledger_row ?i (int m) st t) (webhook_deliveries w @ [?nd])
        (webhook_deliveries ?w4)" by simp
    from ledger_of_new_row [OF this old_ids] obtain f where
      f: "webhook_deliveries ?w4 = webhook_deliveries w @ [f]"
         "ledger_row ?i (int m) st t ?nd f" by blast
    have f_id: "d_id f = ?i" using f(2) by (simp add: ledger_row_def new_delivery_def)
    have f_at: "d_created_at f = datetime_now E (clock_reads w)"
      using f(2) by (simp add: ledger_row_def new_delivery_def)
    have settled: "delivery_settled E ev payload r f"
      unfolding delivery_settled_def f_id
      using f(2) m(1,2,3) by (intro exI [of _ "datetime_now E (clock_reads w)"] exI [of _ "int m"]
          exI [of _ st] exI [of _ t]) simp
    have rq: "delivery_request E ?wh ?p = request_for E payload r"
      by (simp add: delivery_request_def request_for_def)
    note fr = after_attempts_frame [of E ?i ?wh ?p m ?w3]
    have log4: "http_log ?w4 = http_log w @ replicate m (request_for E payload r)"
      unfolding m(4) using fr by (simp add: rq)
    have ids4: "ids_drawn ?w4 = Suc (ids_drawn w)" unfolding m(4) using fr by simp
    have hooks4: "webhooks ?w4 = webhooks w" unfolding m(4) using fr by simp
    have notes4: "notifications ?w4 = notifications w" unfolding m(4) using fr by simp
    have mails4: "sent_emails ?w4 = sent_emails w" unfolding m(4) using fr by simp
    have prefs4: "notification_preferences ?w4 = notification_preferences w"
      unfolding m(4) using fr by simp
    have p1: "\<forall>r\<in>set rest. events_of E r \<noteq> None" using Cons.prems(1) by simp
    have p2: "distinct (map (nanoid E) [ids_drawn ?w4 ..< ids_drawn ?w4 + length ?sel])"
      unfolding ids4 using dist by simp
    have i_not_later: "?i \<notin> set (map (nanoid E) [Suc (ids_drawn w) ..< Suc (ids_drawn w) + length ?sel])"
      using dist by simp
    have p3: "\<forall>k\<in>{ids_drawn ?w4 ..< ids_drawn ?w4 + length ?sel}.
            nanoid E k \<notin> set (map d_id (webhook_deliveries ?w4))"
    proof
      fix k assume k: "k \<in> {ids_drawn ?w4 ..< ids_drawn ?w4 + length ?sel}"
      then have k': "k \<in> set [Suc (ids_drawn w) ..< Suc (ids_drawn w) + length ?sel]"
        unfolding ids4 set_upt .
      then have "nanoid E k \<in> set (map (nanoid E) [Suc (ids_drawn w) ..< Suc (ids_drawn w) + length ?sel])"
        unfolding set_map by (rule imageI)
      then have ne: "nanoid E k \<noteq> ?i" using i_not_later by metis
      from k' have "k \<in> {ids_drawn w ..< ids_drawn w + length (r # ?sel)}" by auto
      then have "nanoid E k \<notin> set (map d_id (webhook_deliveries w))" using fresh by blast
      then show "nanoid E k \<notin> set (map d_id (webhook_deliveries ?w4))"
        unfolding f(1) using ne f_id by simp
    qed
    have p4: "\<forall>r\<in>set rest. w_id r \<in> set (map w_id (webhooks ?w4))"
      unfolding hooks4 using Cons.prems(4) by simp
    from Cons.IH [OF p1 p2 p3 p4] obtain w' finals ms handed where
      ih: "deliver_loop E ev payload rest ?w4 = (Inr (), w', handed)"
          "webhook_deliveries w' = webhook_deliveries ?w4 @ finals"
          "list_all2 (delivery_settled E ev payload) ?sel finals"
          "length ms = length ?sel"
          "list_all (\<lambda>m. 1 \<le> m \<and> m \<le> 3) ms"
          "http_log w' = http_log ?w4
             @ concat (map2 (\<lambda>m r. replicate m (request_for E payload r)) ms ?sel)"
          "length handed = length ?sel"
          "list_all2 (\<lambda>r cf. delivery_created E ev payload w' r (fst cf) (snd cf))
             ?sel (zip handed finals)"
          "webhooks w' = webhooks ?w4" "notifications w' = notifications ?w4"
          "sent_emails w' = sent_emails ?w4"
          "notification_preferences w' = notification_preferences ?w4"
      by blast
    have tbl: "webhook_deliveries w' = webhook_deliveries w @ f # finals"
      unfolding ih(2) f(1) by simp
    have tbl3: "webhook_deliveries ?w3 = webhook_deliveries w @ [?nd]" by simp
    have i_old: "?i \<notin> d_id ` set (webhook_deliveries w)" using i_new by simp
    have created: "delivery_created E ev payload w' r ?w3 f"
      unfolding delivery_created_def tbl3 tbl conf f_id f_at
      using f(1) i_old by (simp add: new_delivery_def nth_append)
    show ?thesis
      unfolding loop sel ih(1)
      apply (rule exI [of _ w'], rule exI [of _ "f # finals"], rule exI [of _ "m # ms"],
          rule exI [of _ "?w3 # handed"])
      using ih(3-12) settled created m(1,2) tbl log4 hooks4 notes4 mails4 prefs4 by simp
  qed
qed

text \<open>
  C6. \<open>deliver\<close> goes through the user's active webhooks and, for those whose events
  array contains the event type, in table order, inserts one delivery row and calls
  \<open>attemptDelivery\<close>. In the state in which \<open>attemptDelivery\<close> is called for a
  webhook, the last row of the table is the new one: for that webhook, event type and
  payload, with status pending, 0 attempts, no response code and no attempt time, under
  a new id. When \<open>deliver\<close> returns, the table has grown by exactly one row per such
  webhook, which is that row after one to three attempts, with status delivered or
  failed, and the HTTP requests made are one to three per such webhook, to its URL.
  Webhooks that are inactive, not subscribed or another user's get no row and no
  request, and \<open>deliver\<close> still returns normally. This holds when the events text of
  each active webhook of the user is a JSON array and the identifiers drawn are new.
\<close>

theorem deliver_selects_active_subscribed:
  "(\<forall>r\<in>set (webhooks w). w_user_id r = uid \<and> w_active r = 1 \<longrightarrow> events_of E r \<noteq> None)
   \<and> distinct (map (nanoid E)
        [ids_drawn w ..< ids_drawn w
           + length (filter (\<lambda>r. w_user_id r = uid \<and> w_active r = 1 \<and> subscribed E ev r)
                       (webhooks w))])
   \<and> (\<forall>k\<in>{ids_drawn w ..< ids_drawn w
           + length (filter (\<lambda>r. w_user_id r = uid \<and> w_active r = 1 \<and> subscribed E ev r)
                       (webhooks w))}.
         nanoid E k \<notin> set (map d_id (webhook_deliveries w)))
   \<longrightarrow>
     (\<exists>w' finals ms handed.
        WebhookService_deliver E ev payload uid w = (Inr (), w')
        \<and> deliver_handed E ev payload uid w = handed
        \<and> webhook_deliveries w' = webhook_deliveries w @ finals
        \<and> list_all2 (delivery_settled E ev payload)
             (filter (\<lambda>r. w_user_id r = uid \<and> w_active r = 1 \<and> subscribed E ev r) (webhooks w))
             finals
        \<and> length handed
            = length (filter (\<lambda>r. w_user_id r = uid \<and> w_active r = 1 \<and> subscribed E ev r)
                        (webhooks w))
        \<and> list_all2 (\<lambda>r cf. delivery_created E ev payload w' r (fst cf) (snd cf))
             (filter (\<lambda>r. w_user_id r = uid \<and> w_active r = 1 \<and> subscribed E ev r) (webhooks w))
             (zip handed finals)
        \<and> length ms
            = length (filter (\<lambda>r. w_user_id r = uid \<and> w_active r = 1 \<and> subscribed E ev r)
                        (webhooks w))
        \<and> list_all (\<lambda>m. 1 \<le> m \<and> m \<le> 3) ms
        \<and> http_log w' = http_log w
             @ concat (map2 (\<lambda>m r. replicate m (request_for E payload r)) ms
                 (filter (\<lambda>r. w_user_id r = uid \<and> w_active r = 1 \<and> subscribed E ev r)
                    (webhooks w))))"
proof
  let ?act = "filter (\<lambda>r. w_user_id r = uid \<and> w_active r = 1) (webhooks w)"
  let ?sel = "filter (\<lambda>r. w_user_id r = uid \<and> w_active r = 1 \<and> subscribed E ev r) (webhooks w)"
  assume h: "(\<forall>r\<in>set (webhooks w). w_user_id r = uid \<and> w_active r = 1 \<longrightarrow> events_of E r \<noteq> None)
        \<and> distinct (map (nanoid E) [ids_drawn w ..< ids_drawn w + length ?sel])
        \<and> (\<forall>k\<in>{ids_drawn w ..< ids_drawn w + length ?sel}.
              nanoid E k \<notin> set (map d_id (webhook_deliveries w)))"
  have sel: "filter (subscribed E ev) ?act = ?sel"
    by (simp add: conj_commute conj_left_commute)
  have a1: "\<forall>r\<in>set ?act. events_of E r \<noteq> None" using h by simp
  have a2: "distinct (map (nanoid E)
         [ids_drawn w ..< ids_drawn w + length (filter (subscribed E ev) ?act)])"
    unfolding sel using h by blast
  have a3: "\<forall>k\<in>{ids_drawn w ..< ids_drawn w + length (filter (subscribed E ev) ?act)}.
          nanoid E k \<notin> set (map d_id (webhook_deliveries w))"
    unfolding sel using h by blast
  have a4: "\<forall>r\<in>set ?act. w_id r \<in> set (map w_id (webhooks w))" by simp
  from deliver_loop_ok [OF a1 a2 a3 a4, of payload] obtain w' finals ms handed where
    r: "deliver_loop E ev payload ?act w = (Inr (), w', handed)"
       "webhook_deliveries w' = webhook_deliveries w @ finals"
       "list_all2 (delivery_settled E ev payload) (filter (subscribed E ev) ?act) finals"
       "length ms = length (filter (subscribed E ev) ?act)"
       "list_all (\<lambda>m. 1 \<le> m \<and> m \<le> 3) ms"
       "http_log w' = http_log w
         @ concat (map2 (\<lambda>m r. replicate m (request_for E payload r)) ms
                     (filter (subscribed E ev) ?act))"
       "length handed = length (filter (subscribed E ev) ?act)"
       "list_all2 (\<lambda>r cf. delivery_created E ev payload w' r (fst cf) (snd cf))
          (filter (subscribed E ev) ?act) (zip handed finals)"
    by blast
  have d: "WebhookService_deliver E ev payload uid w = (Inr (), w')"
    by (simp add: WebhookService_deliver_def r(1))
  have g: "deliver_handed E ev payload uid w = handed"
    by (simp add: deliver_handed_def r(1))
  show "\<exists>w' finals ms handed.
        WebhookService_deliver E ev payload uid w = (Inr (), w')
        \<and> deliver_handed E ev payload uid w = handed
        \<and> webhook_deliveries w' = webhook_deliveries w @ finals
        \<and> list_all2 (delivery_settled E ev payload) ?sel finals
        \<and> length handed = length ?sel
        \<and> list_all2 (\<lambda>r cf. delivery_created E ev payload w' r (fst cf) (snd cf))
             ?sel (zip handed finals)
        \<and> length ms = length ?sel
        \<and> list_all (\<lambda>m. 1 \<le> m \<and> m \<le> 3) ms
        \<and> http_log w' = http_log w
             @ concat (map2 (\<lambda>m r. replicate m (request_for E payload r)) ms ?sel)"
    apply (rule exI [of _ w'], rule exI [of _ finals], rule exI [of _ ms], rule exI [of _ handed])
    using d g r(2-8) unfolding sel by simp
qed

lemma hook_selected:
  "filter (\<lambda>r. w_user_id r = ''svc-user'' \<and> w_active r = 1
              \<and> subscribed (demo_env outs) task_assigned r) (webhooks hook_world)
     = [demo_hook ''wh1'' ''svc-user'' ''[\"task_assigned\"]'' 1]"
  by (simp add: hook_world_def empty_world_def demo_hook_def subscribed_def events_of_def
      demo_env_def demo_parse_def demo_texts_def)

theorem deliver_selects_active_subscribed_witness:
  "fst (WebhookService_deliver (demo_env [Response 500, Response 200]) task_assigned (JObject [])
          ''svc-user'' hook_world) = Inr ()
   \<and> map (\<lambda>r. (d_webhook_id r, d_event_type r, d_status r, d_attempts r))
        (webhook_deliveries (snd (WebhookService_deliver (demo_env [Response 500, Response 200])
            task_assigned (JObject []) ''svc-user'' hook_world)))
       = [(''wh4'', ''task_assigned'', delivered, 1), (''wh1'', ''task_assigned'', delivered, 2)]
   \<and> map (\<lambda>c. map (\<lambda>r. (d_webhook_id r, d_event_type r, d_status r, d_attempts r,
                         d_response_code r, d_last_attempt_at r))
                (webhook_deliveries c))
        (deliver_handed (demo_env [Response 500, Response 200]) task_assigned (JObject [])
           ''svc-user'' hook_world)
       = [[(''wh4'', ''task_assigned'', delivered, 1, Some 200, Some ''2024-01-01 00:00:00''),
           (''wh1'', ''task_assigned'', pending, 0, None, None)]]
   \<and> map rq_url (http_log (snd (WebhookService_deliver (demo_env [Response 500, Response 200])
            task_assigned (JObject []) ''svc-user'' hook_world)))
       = [''https://example.com/wh1'', ''https://example.com/wh1'']
   \<and> map w_id (filter (\<lambda>r. w_user_id r = ''svc-user'' \<and> w_active r = 1
              \<and> subscribed (demo_env [Response 500, Response 200]) task_assigned r)
           (webhooks hook_world)) = [''wh1'']"
proof -
  let ?E = "demo_env [Response 500, Response 200]"
  let ?D = "WebhookService_deliver ?E task_assigned (JObject []) ''svc-user'' hook_world"
  let ?H = "deliver_handed ?E task_assigned (JObject []) ''svc-user'' hook_world"
  let ?sel = "filter (\<lambda>r. w_user_id r = ''svc-user'' \<and> w_active r = 1
              \<and> subscribed ?E task_assigned r) (webhooks hook_world)"
  note inst = deliver_selects_active_subscribed
      [where E="?E" and ev=task_assigned and payload="JObject []" and uid="''svc-user''"
         and w=hook_world]
  have h1: "\<forall>r\<in>set (webhooks hook_world). w_user_id r = ''svc-user'' \<and> w_active r = 1
              \<longrightarrow> events_of ?E r \<noteq> None"
    by (simp add: hook_world_def empty_world_def demo_hook_def events_of_def
        demo_env_def demo_parse_def demo_texts_def)
  have h2: "distinct (map (nanoid ?E) [ids_drawn hook_world ..< ids_drawn hook_world + length ?sel])"
    unfolding hook_selected by (simp add: hook_world_def empty_world_def)
  have h3: "\<forall>k\<in>{ids_drawn hook_world ..< ids_drawn hook_world + length ?sel}.
              nanoid ?E k \<notin> set (map d_id (webhook_deliveries hook_world))"
    unfolding hook_selected
    by (simp add: hook_world_def empty_world_def demo_delivery_def demo_env_def)
  from inst h1 h2 h3 obtain w' handed finals where
    r: "?D = (Inr (), w')" "?H = handed" "length handed = length ?sel"
       "list_all2 (\<lambda>r cf. delivery_created ?E task_assigned (JObject []) w' r (fst cf) (snd cf))
             ?sel (zip handed finals)"
    by blast
  from r(3) obtain c where c: "handed = [c]"
    unfolding hook_selected by (cases handed) simp_all
  have a: "fst ?D = Inr ()" using r(1) by simp
  have b: "map (\<lambda>r. (d_webhook_id r, d_event_type r, d_status r, d_attempts r))
        (webhook_deliveries (snd ?D))
       = [(''wh4'', ''task_assigned'', delivered, 1), (''wh1'', ''task_assigned'', delivered, 2)]"
    by (simp add: WebhookService_deliver_def hook_world_def empty_world_def demo_hook_def
        demo_delivery_def rowToWebhook_def demo_env_def demo_parse_def demo_stringify_def
        demo_texts_def draw_id_def read_clock_def insert_delivery_def new_delivery_def
        attemptDelivery_cases attempt_once_eq delivery_request_def signPayload_def
        record_response_def record_exception_def maxAttempts_def RETRY_DELAYS_def Let_def
        numeral_2_eq_2)
  have e: "map (\<lambda>c. map (\<lambda>r. (d_webhook_id r, d_event_type r, d_status r, d_attempts r,
                         d_response_code r, d_last_attempt_at r))
                (webhook_deliveries c)) ?H
       = [[(''wh4'', ''task_assigned'', delivered, 1, Some 200, Some ''2024-01-01 00:00:00''),
           (''wh1'', ''task_assigned'', pending, 0, None, None)]]"
    by (simp add: deliver_handed_def hook_world_def empty_world_def demo_hook_def
        demo_delivery_def rowToWebhook_def demo_env_def demo_parse_def demo_stringify_def
        demo_texts_def draw_id_def read_clock_def insert_delivery_def new_delivery_def
        Let_def split_beta)
  have cc: "map rq_url (http_log (snd ?D))
       = [''https://example.com/wh1'', ''https://example.com/wh1'']"
    by (simp add: WebhookService_deliver_def hook_world_def empty_world_def demo_hook_def
        demo_delivery_def rowToWebhook_def demo_env_def demo_parse_def demo_stringify_def
        demo_texts_def draw_id_def read_clock_def insert_delivery_def new_delivery_def
        attemptDelivery_cases attempt_once_eq delivery_request_def signPayload_def
        record_response_def record_exception_def maxAttempts_def RETRY_DELAYS_def Let_def
        numeral_2_eq_2)
  have d: "map w_id ?sel = [''wh1'']"
    unfolding hook_selected by (simp add: demo_hook_def)
  show ?thesis using a b e cc d by simp
qed

section \<open>Reading preferences\<close>

lemma rowToPreferences_aborts:
  "JSON_parse E (p_task_assigned row) = None \<or> JSON_parse E (p_task_status_changed row) = None
   \<or> JSON_parse E (p_comment_added row) = None \<or> JSON_parse E (p_project_invited row) = None
   \<or> JSON_parse E (p_task_due_soon row) = None
   \<Longrightarrow> rowToPreferences E row = Inl SyntaxError"
  by (auto simp: rowToPreferences_def split: option.splits)

text \<open>
  C4 fails on the code: on the row of the repository's own test (\<open>task_assigned\<close> is
  \<open>not-json\<close>, the other four columns are valid), \<open>PreferencesService.get\<close> throws
  the SyntaxError of \<^verbatim>\<open>JSON.parse\<close>; it returns neither the default for
  \<open>taskAssigned\<close> nor the stored values of the other four types. The specification's
  resolver gives the default for the corrupt type and the stored value for the others.
\<close>

theorem preferences_get_aborts_on_corrupt_field:
  \<open>PreferencesService_get (demo_env []) ''corrupt-user'' corrupt_world = Inl SyntaxError
   \<and> JSON_parse (demo_env []) ''not-json'' = None
   \<and> JSON_parse (demo_env []) ''["in_app"]'' = Some (JArray [JString ''in_app''])
   \<and> spec_resolveChannels (demo_env []) corrupt_world ''corrupt-user'' task_assigned None
       = [''in_app'']
   \<and> spec_resolveChannels (demo_env []) corrupt_world ''corrupt-user'' project_invited None
       = [''in_app'', ''email'']\<close>
  by (simp add: PreferencesService_get_def rowToPreferences_def corrupt_world_def
      spec_resolveChannels_def demo_defs)

section \<open>The read flag\<close>

lemma read_flags_kept_append:
  "notifications w' = notifications w @ rows \<Longrightarrow> read_flags_kept w w'"
  by (simp add: read_flags_kept_def list_all2_refl)

lemma read_flags_kept_same:
  "notifications w' = notifications w \<Longrightarrow> read_flags_kept w w'"
  by (simp add: read_flags_kept_def list_all2_refl)

lemma read_flags_kept_mark:
  "notifications w' = map (\<lambda>r. if P r then r\<lparr>n_read := 1\<rparr> else r) (notifications w)
   \<Longrightarrow> read_flags_kept w w'"
  by (simp add: read_flags_kept_def list_all2_map2 list_all2_refl)

lemma send_keeps_read_flags: "read_flags_kept w (snd (NotificationService_send E req w))"
proof -
  obtain r w' where rw: "NotificationService_send E req w = (r, w')"
    by (cases "NotificationService_send E req w")
  then have "send_loop E req (case req_channels req of None \<Rightarrow> [in_app] | Some cs \<Rightarrow> cs) [] w = (r, w')"
    by (simp add: send_unfold)
  from send_loop_appends [OF this] obtain rows where "notifications w' = notifications w @ rows"
    by blast
  then show ?thesis using rw by (simp add: read_flags_kept_append)
qed

lemma send_new_rows_unread:
  "\<exists>rows. notifications (snd (NotificationService_send E req w)) = notifications w @ rows
     \<and> list_all (\<lambda>r. n_read r = 0) rows"
proof -
  obtain r w' where rw: "NotificationService_send E req w = (r, w')"
    by (cases "NotificationService_send E req w")
  then have "send_loop E req (case req_channels req of None \<Rightarrow> [in_app] | Some cs \<Rightarrow> cs) [] w = (r, w')"
    by (simp add: send_unfold)
  from send_loop_appends [OF this] obtain rows where
    "notifications w' = notifications w @ rows"
    "list_all (\<lambda>x. n_read x = 0 \<and> n_user_id x = req_userId req) rows"
    by blast
  then have "notifications w' = notifications w @ rows \<and> list_all (\<lambda>r. n_read r = 0) rows"
    by (simp add: list_all_iff)
  then show ?thesis using rw by auto
qed

lemma send_returns_unread:
  assumes "fst (NotificationService_send E req w) = Inr ns"
  shows "list_all (\<lambda>n. \<not> notif_read n) ns"
proof -
  from assms have "NotificationService_send E req w = (Inr ns, snd (NotificationService_send E req w))"
    by (metis prod.collapse)
  from send_Inr_shape [OF this] show ?thesis by blast
qed

lemma markAsRead_keeps_read_flags:
  "read_flags_kept w (snd (NotificationService_markAsRead E nid uid w))"
proof (cases "find (\<lambda>r. n_id r = nid \<and> n_user_id r = uid) (notifications w)")
  case None
  then show ?thesis
    by (simp add: NotificationService_markAsRead_def read_flags_kept_same)
next
  case (Some row)
  show ?thesis
    by (rule read_flags_kept_mark [where P="\<lambda>r. n_id r = nid"])
       (simp add: markAsRead_owned_state [OF Some])
qed

lemma markAllAsRead_keeps_read_flags:
  "read_flags_kept w (snd (NotificationService_markAllAsRead uid w))"
  by (rule read_flags_kept_mark [where P="\<lambda>r. n_user_id r = uid \<and> n_read r = 0"])
     (simp add: NotificationService_markAllAsRead_def)

lemma markAsRead_already_read:
  assumes "find (\<lambda>r. n_id r = nid \<and> n_user_id r = uid) (notifications w) = Some row"
    and "n_read row = 1" and "JSON_parse E (n_metadata row) = Some m"
  shows "(\<exists>n. fst (NotificationService_markAsRead E nid uid w) = Inr (Some n)
            \<and> notif_read n \<and> notif_id n = nid \<and> notif_userId n = uid)
         \<and> list_all (\<lambda>r. n_id r = nid \<longrightarrow> n_read r = 1)
             (notifications (snd (NotificationService_markAsRead E nid uid w)))"
proof -
  have "\<exists>n. fst (NotificationService_markAsRead E nid uid w) = Inr (Some n)
            \<and> notif_read n \<and> notif_id n = nid \<and> notif_userId n = uid"
    using markAsRead_owned_result [OF assms(1,3)] by simp
  moreover have "list_all (\<lambda>r. n_id r = nid \<longrightarrow> n_read r = 1)
             (map (\<lambda>r. if n_id r = nid then r\<lparr>n_read := 1\<rparr> else r) xs)" for xs
    by (induction xs) simp_all
  then have "list_all (\<lambda>r. n_id r = nid \<longrightarrow> n_read r = 1)
             (notifications (snd (NotificationService_markAsRead E nid uid w)))"
    by (simp add: markAsRead_owned_state [OF assms(1)])
  ultimately show ?thesis by blast
qed

lemma attemptDelivery_notifications:
  "notifications (WebhookService_attemptDelivery E did wh payload w) = notifications w"
proof -
  from attemptDelivery_some_attempts [of E did wh payload w] obtain m where
    "WebhookService_attemptDelivery E did wh payload w = after_attempts E did wh payload m w"
    by blast
  then show ?thesis using after_attempts_frame [of E did wh payload m w] by simp
qed

lemma deliver_loop_notifications:
  "notifications (fst (snd (deliver_loop E ev payload rows w))) = notifications w"
proof (induction rows arbitrary: w)
  case Nil
  then show ?case by simp
next
  case (Cons r rest)
  show ?case
  proof (cases "rowToWebhook E r")
    case (Inl e)
    then show ?thesis by simp
  next
    case (Inr wh)
    show ?thesis
    proof (cases "js_includes (wh_events wh) (type_text ev)")
      case (Inl e)
      with Inr show ?thesis by simp
    next
      case inc: (Inr b)
      show ?thesis
      proof (cases b)
        case False
        with Inr inc Cons.IH [of w] show ?thesis by simp
      next
        case True
        let ?w2 = "w\<lparr>ids_drawn := Suc (ids_drawn w), clock_reads := Suc (clock_reads w)\<rparr>"
        let ?nd = "new_delivery (nanoid E (ids_drawn w)) (wh_id wh) (type_text ev)
                     (JSON_stringify E payload) (datetime_now E (clock_reads w))"
        show ?thesis
        proof (cases "insert_delivery ?nd ?w2")
          case (Inl e)
          with Inr inc True show ?thesis
            by (simp add: draw_id_def read_clock_def Let_def)
        next
          case ins: (Inr w3)
          then have n3: "notifications w3 = notifications w"
            by (auto simp: insert_delivery_def split: if_splits)
          have "fst (snd (deliver_loop E ev payload (r # rest) w))
              = fst (snd (deliver_loop E ev payload rest
                  (WebhookService_attemptDelivery E (nanoid E (ids_drawn w)) wh
                     (JSON_stringify E payload) w3)))"
            using Inr inc True ins by (simp add: draw_id_def read_clock_def Let_def split_beta)
          then show ?thesis
            using Cons.IH [of "WebhookService_attemptDelivery E (nanoid E (ids_drawn w)) wh
                     (JSON_stringify E payload) w3"]
            by (simp add: attemptDelivery_notifications n3)
        qed
      qed
    qed
  qed
qed

lemma other_services_keep_notifications:
  "notifications (snd (EmailService_send E toEmail subject body w)) = notifications w
   \<and> notifications (snd (WebhookService_update E wid uid upd w)) = notifications w
   \<and> notifications (snd (WebhookService_delete wid uid w)) = notifications w
   \<and> notifications (snd (WebhookService_deliver E ev payload uid w)) = notifications w"
proof -
  have a: "notifications (snd (EmailService_send E toEmail subject body w)) = notifications w"
    by (simp add: EmailService_send_cases Let_def)
  have b: "notifications (snd (WebhookService_update E wid uid upd w)) = notifications w"
    by (simp add: WebhookService_update_def Let_def split: sum.splits option.splits)
  have c: "notifications (snd (WebhookService_delete wid uid w)) = notifications w"
    by (simp add: WebhookService_delete_def Let_def)
  have d: "notifications (snd (WebhookService_deliver E ev payload uid w)) = notifications w"
    by (simp add: WebhookService_deliver_def deliver_loop_notifications split_beta)
  show ?thesis using a b c d by simp
qed

text \<open>
  C10. The read flag only grows. \<open>send\<close> appends rows with \<open>read = 0\<close> and keeps the
  rows there were; the records it returns are unread. \<open>markAsRead\<close> and
  \<open>markAllAsRead\<close> only write \<open>read = 1\<close>; the other services do not write to
  \<open>notifications\<close>. So from the state before to the state after any of these
  operations every row is still there under its id, and a row that was read is read.
  \<open>markAsRead\<close> on a row of the caller that is already read returns the record with
  \<open>read = true\<close> (not null, no toggle), and the row stays read.
\<close>

theorem read_flag_is_monotone:
  "(\<forall>ns. fst (NotificationService_send E req w) = Inr ns \<longrightarrow> list_all (\<lambda>n. \<not> notif_read n) ns)
   \<and> (\<exists>rows. notifications (snd (NotificationService_send E req w)) = notifications w @ rows
         \<and> list_all (\<lambda>r. n_read r = 0) rows)
   \<and> read_flags_kept w (snd (NotificationService_send E req w))
   \<and> read_flags_kept w (snd (NotificationService_markAsRead E nid uid w))
   \<and> read_flags_kept w (snd (NotificationService_markAllAsRead uid w))
   \<and> read_flags_kept w (snd (EmailService_send E toEmail subject body w))
   \<and> read_flags_kept w (snd (WebhookService_update E wid uid upd w))
   \<and> read_flags_kept w (snd (WebhookService_delete wid uid w))
   \<and> read_flags_kept w (snd (WebhookService_deliver E ev payload uid w))
   \<and> (\<forall>row m. find (\<lambda>r. n_id r = nid \<and> n_user_id r = uid) (notifications w) = Some row
          \<and> n_read row = 1 \<and> JSON_parse E (n_metadata row) = Some m \<longrightarrow>
        (\<exists>n. fst (NotificationService_markAsRead E nid uid w) = Inr (Some n)
            \<and> notif_read n \<and> notif_id n = nid \<and> notif_userId n = uid)
        \<and> list_all (\<lambda>r. n_id r = nid \<longrightarrow> n_read r = 1)
             (notifications (snd (NotificationService_markAsRead E nid uid w))))"
proof -
  note o = other_services_keep_notifications [of E toEmail subject body w wid uid upd ev payload]
  have a: "read_flags_kept w (snd (EmailService_send E toEmail subject body w))"
    using o by (intro read_flags_kept_same) simp
  have b: "read_flags_kept w (snd (WebhookService_update E wid uid upd w))"
    using o by (intro read_flags_kept_same) simp
  have c: "read_flags_kept w (snd (WebhookService_delete wid uid w))"
    using o by (intro read_flags_kept_same) simp
  have d: "read_flags_kept w (snd (WebhookService_deliver E ev payload uid w))"
    using o by (intro read_flags_kept_same) simp
  show ?thesis
    using send_returns_unread [of E req w] send_new_rows_unread [of E req w]
      send_keeps_read_flags [of w E req] markAsRead_keeps_read_flags [of w E nid uid]
      markAllAsRead_keeps_read_flags [of w uid] a b c d
      markAsRead_already_read [of nid uid w _ E]
    by blast
qed

theorem read_flag_is_monotone_witness:
  "map_sum id (map_option notif_read)
      (fst (NotificationService_markAsRead (demo_env []) ''n1'' ''page-user'' five_world))
     = Inr (Some True)
   \<and> map n_read (notifications (snd (NotificationService_markAsRead (demo_env []) ''n1''
        ''page-user'' five_world))) = [0, 1, 0, 0, 0, 0]
   \<and> map n_read (notifications five_world) = [0, 1, 0, 0, 0, 0]
   \<and> map n_read (notifications (snd (NotificationService_markAllAsRead ''page-user'' five_world)))
       = [1, 1, 0, 1, 1, 1]
   \<and> read_flags_kept five_world (snd (NotificationService_markAllAsRead ''page-user'' five_world))
   \<and> map_sum id (map notif_read)
        (fst (NotificationService_send (demo_env []) (demo_request task_assigned (Some [in_app, email]))
           five_world)) = Inr [False, False]
   \<and> map n_read (notifications (snd (NotificationService_send (demo_env [])
        (demo_request task_assigned (Some [in_app, email])) five_world)))
       = [0, 1, 0, 0, 0, 0, 0, 0]"
proof -
  let ?E = "demo_env []"
  let ?req = "demo_request task_assigned (Some [in_app, email])"
  let ?row = "demo_row ''n1'' ''page-user'' 1 ''2024-01-01 00:00:01''"
  note inst = read_flag_is_monotone
      [where E="?E" and req="?req" and w=five_world and nid="''n1''" and uid="''page-user''"
         and toEmail="''a''" and subject="''s''" and body="''b''" and wid="''wh1''"
         and upd="\<lparr>upd_url = None, upd_secret = None, upd_events = None, upd_active = None\<rparr>"
         and ev=task_assigned and payload="JObject []"]
  have found: "find (\<lambda>r. n_id r = ''n1'' \<and> n_user_id r = ''page-user'') (notifications five_world)
       = Some ?row \<and> n_read ?row = 1 \<and> JSON_parse ?E (n_metadata ?row) = Some (JObject [])"
    by (simp add: demo_defs)
  from inst found obtain n where
    n: "fst (NotificationService_markAsRead ?E ''n1'' ''page-user'' five_world) = Inr (Some n)"
       "notif_read n"
    by blast
  from inst have kept: "read_flags_kept five_world (snd (NotificationService_markAllAsRead ''page-user'' five_world))"
    by (elim conjE) assumption
  have sent: "map_sum id (map notif_read) (fst (NotificationService_send ?E ?req five_world))
      = Inr [False, False]"
    by (simp add: send_unfold send_channel_cases sent_row_def rowToNotification_def demo_defs)
  then obtain ns where ns: "fst (NotificationService_send ?E ?req five_world) = Inr ns"
    by (cases "fst (NotificationService_send ?E ?req five_world)") auto
  from inst ns have "list_all (\<lambda>n. \<not> notif_read n) ns" by blast
  have a: "map_sum id (map_option notif_read)
      (fst (NotificationService_markAsRead ?E ''n1'' ''page-user'' five_world)) = Inr (Some True)"
    using n by simp
  have b: "map n_read (notifications (snd (NotificationService_markAsRead ?E ''n1''
        ''page-user'' five_world))) = [0, 1, 0, 0, 0, 0]"
    by (simp add: NotificationService_markAsRead_def rowToNotification_def Let_def demo_defs)
  have c: "map n_read (notifications five_world) = [0, 1, 0, 0, 0, 0]"
    by (simp add: demo_defs)
  have d: "map n_read (notifications (snd (NotificationService_markAllAsRead ''page-user'' five_world)))
       = [1, 1, 0, 1, 1, 1]"
    by (simp add: NotificationService_markAllAsRead_def demo_defs)
  have e: "map n_read (notifications (snd (NotificationService_send ?E ?req five_world)))
       = [0, 1, 0, 0, 0, 0, 0, 0]"
    by (simp add: send_unfold send_channel_cases sent_row_def rowToNotification_def demo_defs)
  show ?thesis using a b c d kept sent e by simp
qed

end
